theory Spec2Isabelle
  imports Complex_Main
begin

section \<open>Lift of a 2D airfoil from Bernoulli's equation\<close>

text \<open>
  The repository holds four C programs that compute the lift force on a NACA 2412 airfoil:
  \<^item> v1, no uncertainties: every input is a literal;
  \<^item> v2, temperature, humidity and elevation drawn from distributions;
  \<^item> v3, angle of attack uncertain: the pressure coefficients come from a table read from
    a file whose path is the program's argument;
  \<^item> v3, pressure coefficients uncertain: the same with the file name fixed.

  Each program is a function \<open>loadInputs\<close> that writes area, two velocities and the air
  density through pointers, and a \<open>main\<close> that combines them into the lift force.
\<close>

subsection \<open>Doubles\<close>

text \<open>
  A C \<open>double\<close> is a real number or one of the three special values of IEEE
  arithmetic, the two infinities and NaN; C's arithmetic raises nothing and returns them.
  Rounding is left out: a finite result is the exact real. Overflow is kept: a result
  whose magnitude reaches \<open>2^1024 - 2^970\<close>, from where rounding to nearest gives an
  infinity, is the infinity of its sign. Results too small for a double stay the reals
  they are. The two zeros are not told apart: the only divisors of the programs that can
  vanish are \<open>T+273.15\<close>, \<open>T+237.3\<close> and their products with positive constants, an
  exact cancellation gives \<open>+0\<close>, and so a zero divisor is \<open>+0\<close>.
\<close>

datatype dval = Finite real | PInf | NInf | NaN

definition overflow :: real where
  "overflow = 2 ^ 1024 - 2 ^ 970"

definition fin :: "real \<Rightarrow> dval" where
  "fin x = (if overflow \<le> x then PInf else if x \<le> - overflow then NInf else Finite x)"

fun is_finite :: "dval \<Rightarrow> bool" where
  "is_finite (Finite x) = True"
| "is_finite d = False"

fun dneg :: "dval \<Rightarrow> dval" where
  "dneg (Finite x) = Finite (- x)"
| "dneg PInf = NInf"
| "dneg NInf = PInf"
| "dneg NaN = NaN"

text \<open>\<open>x + y\<close>: NaN if an operand is NaN or the operands are opposite infinities.\<close>

fun dadd :: "dval \<Rightarrow> dval \<Rightarrow> dval" where
  "dadd NaN d = NaN"
| "dadd d NaN = NaN"
| "dadd (Finite x) (Finite y) = fin (x + y)"
| "dadd PInf NInf = NaN"
| "dadd NInf PInf = NaN"
| "dadd PInf d = PInf"
| "dadd d PInf = PInf"
| "dadd NInf d = NInf"
| "dadd d NInf = NInf"

definition dsub :: "dval \<Rightarrow> dval \<Rightarrow> dval" where
  "dsub a b = dadd a (dneg b)"

text \<open>\<open>x * y\<close>: an infinity times zero is NaN, otherwise the signs multiply.\<close>

fun dmul :: "dval \<Rightarrow> dval \<Rightarrow> dval" where
  "dmul NaN d = NaN"
| "dmul d NaN = NaN"
| "dmul (Finite x) (Finite y) = fin (x * y)"
| "dmul (Finite x) d = (if x = 0 then NaN else if 0 < x then d else dneg d)"
| "dmul d (Finite y) = (if y = 0 then NaN else if 0 < y then d else dneg d)"
| "dmul PInf d = d"
| "dmul NInf d = dneg d"

text \<open>
  \<open>x / y\<close>: a finite number over zero is the infinity of its sign and \<open>0/0\<close> is NaN; an
  infinity over zero is that infinity; a finite number over an infinity is zero; an
  infinity over an infinity is NaN.
\<close>

fun ddiv :: "dval \<Rightarrow> dval \<Rightarrow> dval" where
  "ddiv NaN d = NaN"
| "ddiv d NaN = NaN"
| "ddiv (Finite x) (Finite y) =
     (if y = 0 then (if x = 0 then NaN else if 0 < x then PInf else NInf) else fin (x / y))"
| "ddiv (Finite x) d = Finite 0"
| "ddiv PInf (Finite y) = (if 0 \<le> y then PInf else NInf)"
| "ddiv NInf (Finite y) = (if 0 \<le> y then NInf else PInf)"
| "ddiv d e = NaN"

text \<open>\<open>exp(x)\<close>, \<open>pow(10.0, y)\<close> and \<open>pow(x, 2)\<close>.\<close>

fun dexp :: "dval \<Rightarrow> dval" where
  "dexp (Finite x) = fin (exp x)"
| "dexp PInf = PInf"
| "dexp NInf = Finite 0"
| "dexp NaN = NaN"

fun dpow10 :: "dval \<Rightarrow> dval" where
  "dpow10 (Finite y) = fin (10 powr y)"
| "dpow10 PInf = PInf"
| "dpow10 NInf = Finite 0"
| "dpow10 NaN = NaN"

fun dsquare :: "dval \<Rightarrow> dval" where
  "dsquare (Finite x) = fin (x ^ 2)"
| "dsquare NaN = NaN"
| "dsquare d = PInf"

subsection \<open>Pressures and air density\<close>

text \<open>
  The same five statements open \<open>loadInputs\<close> in every variant (v1 lines 51 to 57 and
  101, v2 lines 68 to 71 and 125, v3 lines 100 to 103 and 177). They are functions of the
  elevation \<open>h\<close>, the temperature \<open>T\<close> in degrees Celsius and the humidity \<open>Rh\<close>, three
  finite doubles.
  \<^verbatim>\<open>
  double Pair = exp((-9.81 * 0.0289644 * h)/(8.31432 * (T+273.15))) * 101325.0;
  double Psat = 6.1078*pow(10.0,7.5*T/(T+237.3));
  double Pv = Psat*Rh;
  double Pd = Pair - Pv;
  *r = (Pd/(287.058*(T+273.15)))+(Pv/(461.495*(T+273.15)));
  \<close>
  Every operation is the double operation, in C's order: \<open>-9.81 * 0.0289644\<close> is
  multiplied first and then by \<open>h\<close>, and \<open>7.5*T\<close> is divided by \<open>T+237.3\<close>.
\<close>

definition Pair :: "real \<Rightarrow> real \<Rightarrow> dval" where
  "Pair h T =
     dmul (dexp (ddiv (dmul (Finite (- 9.81 * 0.0289644)) (Finite h))
                      (dmul (Finite 8.31432) (dadd (Finite T) (Finite 273.15)))))
          (Finite 101325)"

definition Psat :: "real \<Rightarrow> dval" where
  "Psat T =
     dmul (Finite 6.1078)
          (dpow10 (ddiv (dmul (Finite 7.5) (Finite T)) (dadd (Finite T) (Finite 237.3))))"

definition Pv :: "real \<Rightarrow> real \<Rightarrow> dval" where
  "Pv T Rh = dmul (Psat T) (Finite Rh)"

definition Pd :: "real \<Rightarrow> real \<Rightarrow> real \<Rightarrow> dval" where
  "Pd h T Rh = dsub (Pair h T) (Pv T Rh)"

definition density :: "real \<Rightarrow> real \<Rightarrow> real \<Rightarrow> dval" where
  "density h T Rh =
     dadd (ddiv (Pd h T Rh) (dmul (Finite 287.058) (dadd (Finite T) (Finite 273.15))))
          (ddiv (Pv T Rh) (dmul (Finite 461.495) (dadd (Finite T) (Finite 273.15))))"

subsection \<open>Velocities\<close>

text \<open>
  The summand of the velocity loops, \<^verbatim>\<open>V * sqrt(fabs(1-Cp))\<close>. The loops are written
  on reals: they divide by constants only, and from finite coefficients and finite
  contents of \<open>*v1\<close> and \<open>*v2\<close> they cannot overflow, a term being at most 30 times the
  square root of the largest double.
\<close>

definition velocity :: "real \<Rightarrow> real \<Rightarrow> real" where
  "velocity V Cp = V * sqrt \<bar>1 - Cp\<bar>"

text \<open>
  The loop of \<open>loadInputs\<close>, from index \<open>i\<close> up to the bound \<open>n\<close>:
  \<^verbatim>\<open>
  for (int i = 0; i < n; i++)
  {
      *v1 += V * sqrt(fabs(1-xs[i]));
      *v2 += V * sqrt(fabs(1-ys[off+i]));
  }
  \<close>
  The pair is the contents of \<open>*v1\<close> and \<open>*v2\<close>. In v1 and v2 the two arrays are the two
  tables and \<open>off\<close> is 0; in v3 both are the one array of 278 coefficients and \<open>off\<close> is
  \<open>row-1\<close>. No variant stores anything in \<open>*v1\<close> or \<open>*v2\<close> before the loop, so the loop
  starts from whatever the caller's variables hold.
\<close>

function velocity_loop ::
  "real \<Rightarrow> real list \<Rightarrow> real list \<Rightarrow> nat \<Rightarrow> nat \<Rightarrow> nat \<Rightarrow> real \<times> real \<Rightarrow> real \<times> real" where
  "velocity_loop V xs ys off n i (a, b) =
     (if i < n
      then velocity_loop V xs ys off n (Suc i)
             (a + velocity V (xs ! i), b + velocity V (ys ! (off + i)))
      else (a, b))"
  by pat_completeness auto
termination
  by (relation "measure (\<lambda>(V, xs, ys, off, n, i, acc). n - i)") auto

declare velocity_loop.simps [simp del]

text \<open>What \<open>loadInputs\<close> writes through its pointers. \<open>Cp1\<close> and \<open>Cp2\<close>, the last two
  pointer parameters, are never written and are left out.\<close>

record outputs =
  A :: real
  v1 :: real
  v2 :: real
  r :: dval

text \<open>The lift force of every \<open>main\<close>:
  \<^verbatim>\<open>liftForce = r*A*(pow(v1, 2)-pow(v2, 2)) / 2.0;\<close>
  \<open>liftForce\<close> is the expression on reals, its value when the density is finite and
  nothing overflows; \<open>lift_of\<close> is the expression on doubles, operation by operation,
  which is what \<open>main\<close> prints.\<close>

definition liftForce :: "real \<Rightarrow> real \<Rightarrow> real \<Rightarrow> real \<Rightarrow> real" where
  "liftForce rho area u1 u2 = rho * area * (u1 ^ 2 - u2 ^ 2) / 2.0"

definition lift_of :: "outputs \<Rightarrow> dval" where
  "lift_of out =
     ddiv (dmul (dmul (r out) (Finite (A out)))
                (dsub (dsquare (Finite (v1 out))) (dsquare (Finite (v2 out)))))
          (Finite 2.0)"

subsection \<open>v1: no uncertainties\<close>

text \<open>
  The two tables of v1, line for line. \<open>Cp2\<close> is the coefficient over the airfoil and
  \<open>Cp1\<close> the one under it. The third line of \<open>Cp2\<close> ends without a comma, so C reads its
  last number and the first number of the fourth line as one subtraction.

  As it stands v1 does not compile: the two arrays are declared in the outermost block
  of \<open>loadInputs\<close> under the names of its last two parameters, which C rejects as a
  redeclaration. The model reads the function as its text says, the names \<open>Cp1\<close> and
  \<open>Cp2\<close> in the loop being the arrays; v2 has the same tables and loop under names of
  their own and compiles.
\<close>

definition Cp2 :: "real list" where
  "Cp2 =
    [- 2.3444, - 2.4402, - 2.5411, - 2.577, - 2.7322, - 2.7316, - 2.5977,
     - 2.575, - 2.5415, - 2.3405, - 2.3121, - 2.2061, - 2.1597, - 2.0826,
     - 1.9988, - 1.9037, - 1.7997, - 1.7692, - 1.63, - 1.6235, - 1.4999
     - 1.4769, - 1.4098, - 1.3809, - 1.3528, - 1.3367, - 1.3181, - 1.2695,
     - 1.239, - 1.1633, - 1.1599, - 1.0807, - 1.0715, - 1.0127, - 0.9936,
     - 0.9336, - 0.8987, - 0.8544, - 0.8222, - 0.7642, - 0.7355, - 0.6851,
     - 0.645, - 0.6061, - 0.5636, - 0.538, - 0.4927, - 0.4825, - 0.4468,
     - 0.4431, - 0.4454, - 0.444, - 0.4329, - 0.4205, - 0.4094, - 0.3889,
     - 0.3636, - 0.349, - 0.3179, - 0.2992, - 0.2832, - 0.2727, - 0.2596,
     - 0.2451, - 0.2248, - 0.2195, - 0.2012, - 0.1998, - 0.1808, - 0.1781,
     - 0.1831, - 0.1885, - 0.1837, - 0.1769, - 0.1889, - 0.1865, - 0.1799,
     - 0.1841, - 0.1785, - 0.1838, - 0.1742, - 0.1779, - 0.1823, - 0.1789]"

definition Cp1 :: "real list" where
  "Cp1 =
    [0.8111, 0.9226, 1.0007, 0.9934, 0.8905, 0.8737, 0.7471,
     0.7336, 0.714, 0.6252, 0.6152, 0.5857, 0.5611, 0.4833,
     0.429, 0.403, 0.3861, 0.3781, 0.3431, 0.3423, 0.3439,
     0.3448, 0.3393, 0.3353, 0.3354, 0.3368, 0.3345, 0.3272,
     0.3228, 0.3067, 0.3057, 0.2782, 0.275, 0.2539, 0.2432,
     0.2017, 0.1893, 0.2187, 0.2461, 0.2578, 0.2585, 0.2675,
     0.2711, 0.2632, 0.2392, 0.2206, 0.1912, 0.1853, 0.1643,
     0.1539, 0.1427, 0.1439, 0.1585, 0.1679, 0.1675, 0.1579,
     0.1564, 0.159, 0.164, 0.1606, 0.1438, 0.1286, 0.1278,
     0.1299, 0.1214, 0.1199, 0.1316, 0.1322, 0.1217, 0.1134,
     0.1001, 0.102, 0.1118, 0.1173, 0.1216, 0.1122, 0.1017,
     0.1134, 0.1031, 0.1022, 0.1164, 0.1036, 0.1032, 0.1174]"

text \<open>
  \<open>loadInputs\<close> of v1. \<open>v1_0\<close> and \<open>v2_0\<close> are the contents of the caller's \<open>v1\<close> and
  \<open>v2\<close> on entry. The loop bound is \<^verbatim>\<open>sizeof(Cp2)/sizeof(double)\<close>, \<open>*v1\<close> adds up the
  terms of \<open>Cp1\<close> and is divided by the length of \<open>Cp1\<close>, \<open>*v2\<close> adds up the terms of
  \<open>Cp2\<close> and is divided by the length of \<open>Cp2\<close>.
\<close>

definition loadInputs_v1 :: "real \<Rightarrow> real \<Rightarrow> outputs" where
  "loadInputs_v1 v1_0 v2_0 =
     (let V = 30.0; Rh = 0.0; h = 0.0; T = 15.0;
          (s1, s2) = velocity_loop V Cp1 Cp2 0 (length Cp2) 0 (v1_0, v2_0)
      in \<lparr>A = 0.23, v1 = s1 / real (length Cp1), v2 = s2 / real (length Cp2),
          r = density h T Rh\<rparr>)"

text \<open>\<open>main\<close> of v1 passes its uninitialised locals and prints the lift force.\<close>

definition main_v1 :: "real \<Rightarrow> real \<Rightarrow> dval" where
  "main_v1 v1_0 v2_0 = lift_of (loadInputs_v1 v1_0 v2_0)"

subsection \<open>v2: temperature, humidity and elevation uncertain\<close>

text \<open>The two tables of v2, line for line; the same slip is in the first.\<close>

definition empiricalPressureCoefficientOverAirfoil :: "real list" where
  "empiricalPressureCoefficientOverAirfoil =
    [- 2.3444, - 2.4402, - 2.5411, - 2.577, - 2.7322, - 2.7316, - 2.5977,
     - 2.575, - 2.5415, - 2.3405, - 2.3121, - 2.2061, - 2.1597, - 2.0826,
     - 1.9988, - 1.9037, - 1.7997, - 1.7692, - 1.63, - 1.6235, - 1.4999
     - 1.4769, - 1.4098, - 1.3809, - 1.3528, - 1.3367, - 1.3181, - 1.2695,
     - 1.239, - 1.1633, - 1.1599, - 1.0807, - 1.0715, - 1.0127, - 0.9936,
     - 0.9336, - 0.8987, - 0.8544, - 0.8222, - 0.7642, - 0.7355, - 0.6851,
     - 0.645, - 0.6061, - 0.5636, - 0.538, - 0.4927, - 0.4825, - 0.4468,
     - 0.4431, - 0.4454, - 0.444, - 0.4329, - 0.4205, - 0.4094, - 0.3889,
     - 0.3636, - 0.349, - 0.3179, - 0.2992, - 0.2832, - 0.2727, - 0.2596,
     - 0.2451, - 0.2248, - 0.2195, - 0.2012, - 0.1998, - 0.1808, - 0.1781,
     - 0.1831, - 0.1885, - 0.1837, - 0.1769, - 0.1889, - 0.1865, - 0.1799,
     - 0.1841, - 0.1785, - 0.1838, - 0.1742, - 0.1779, - 0.1823, - 0.1789]"

definition empiricalPressureCoefficientUnderAirfoil :: "real list" where
  "empiricalPressureCoefficientUnderAirfoil =
    [0.8111, 0.9226, 1.0007, 0.9934, 0.8905, 0.8737, 0.7471,
     0.7336, 0.714, 0.6252, 0.6152, 0.5857, 0.5611, 0.4833,
     0.429, 0.403, 0.3861, 0.3781, 0.3431, 0.3423, 0.3439,
     0.3448, 0.3393, 0.3353, 0.3354, 0.3368, 0.3345, 0.3272,
     0.3228, 0.3067, 0.3057, 0.2782, 0.275, 0.2539, 0.2432,
     0.2017, 0.1893, 0.2187, 0.2461, 0.2578, 0.2585, 0.2675,
     0.2711, 0.2632, 0.2392, 0.2206, 0.1912, 0.1853, 0.1643,
     0.1539, 0.1427, 0.1439, 0.1585, 0.1679, 0.1675, 0.1579,
     0.1564, 0.159, 0.164, 0.1606, 0.1438, 0.1286, 0.1278,
     0.1299, 0.1214, 0.1199, 0.1316, 0.1322, 0.1217, 0.1134,
     0.1001, 0.102, 0.1118, 0.1173, 0.1216, 0.1122, 0.1017,
     0.1134, 0.1031, 0.1022, 0.1164, 0.1036, 0.1032, 0.1174]"

text \<open>
  \<open>loadInputs\<close> of v2. \<open>Rh\<close>, \<open>h\<close> and \<open>T\<close> are what the platform's
  \<open>libUncertainDoubleUniformDist(0.0, 1.0)\<close>, \<open>libUncertainDoubleUniformDist(0.0, 11019.2)\<close>
  and \<open>libUncertainDoubleGaussDist(0.0, 50.0)\<close> return; the library is not part of the
  repository, and its results are parameters here. Here \<open>*v1\<close> adds up the terms over the
  airfoil and \<open>*v2\<close> the terms under it, the other way round from v1.
\<close>

definition loadInputs_v2 :: "real \<Rightarrow> real \<Rightarrow> real \<Rightarrow> real \<Rightarrow> real \<Rightarrow> outputs" where
  "loadInputs_v2 Rh h T v1_0 v2_0 =
     (let V = 30.0;
          (s1, s2) = velocity_loop V empiricalPressureCoefficientOverAirfoil
                       empiricalPressureCoefficientUnderAirfoil 0
                       (length empiricalPressureCoefficientOverAirfoil) 0 (v1_0, v2_0)
      in \<lparr>A = 0.23,
          v1 = s1 / real (length empiricalPressureCoefficientOverAirfoil),
          v2 = s2 / real (length empiricalPressureCoefficientUnderAirfoil),
          r = density h T Rh\<rparr>)"

definition main_v2 :: "real \<Rightarrow> real \<Rightarrow> real \<Rightarrow> real \<Rightarrow> real \<Rightarrow> dval" where
  "main_v2 Rh h T v1_0 v2_0 = lift_of (loadInputs_v2 Rh h T v1_0 v2_0)"

subsection \<open>v3: angle of attack uncertain\<close>

text \<open>The enumeration constants of v3.\<close>

definition sampleCount :: nat where "sampleCount = 3"
definition row :: nat where "row = 140"
definition col :: nat where "col = 7"
definition totalLength :: nat where "totalLength = (row - 1) * 2"

text \<open>
  The table is \<open>double **data\<close>, \<open>row\<close> arrays of \<open>col\<close> doubles filled by \<open>read_csv\<close>;
  here a list of rows, read as \<open>data ! i ! j\<close>. \<open>loadInputs\<close> only reads it. The first
  loop copies six columns of the rows 1 to 139 into six arrays of \<open>row-1\<close> doubles:
  \<^verbatim>\<open>
  for(int i = 1; i < 140; i++)
  {
      empricalPressureOver10AOA[i-1] = data[i][1];
      empricalPressureOver5AOA[i-1] = data[i][2];
      empricalPressureOver0AOA[i-1] = data[i][3];
      empricalPressureUnder0AOA[i-1] = data[i][4];
      empricalPressureUnder5AOA[i-1] = data[i][5];
      empricalPressureUnder10AOA[i-1] = data[i][6];
  }
  \<close>
\<close>

definition column :: "real list list \<Rightarrow> nat \<Rightarrow> real list" where
  "column data j = map (\<lambda>i. data ! i ! j) [1..<140]"

definition empricalPressureOver10AOA :: "real list list \<Rightarrow> real list" where
  "empricalPressureOver10AOA data = column data 1"

definition empricalPressureOver5AOA :: "real list list \<Rightarrow> real list" where
  "empricalPressureOver5AOA data = column data 2"

definition empricalPressureOver0AOA :: "real list list \<Rightarrow> real list" where
  "empricalPressureOver0AOA data = column data 3"

definition empricalPressureUnder0AOA :: "real list list \<Rightarrow> real list" where
  "empricalPressureUnder0AOA data = column data 4"

definition empricalPressureUnder5AOA :: "real list list \<Rightarrow> real list" where
  "empricalPressureUnder5AOA data = column data 5"

definition empricalPressureUnder10AOA :: "real list list \<Rightarrow> real list" where
  "empricalPressureUnder10AOA data = column data 6"

text \<open>
  The second loop writes, for every \<open>i\<close> below \<open>totalLength/2\<close>, the coefficient over
  the airfoil at index \<open>i\<close> and the coefficient under it at index \<open>i+row-1\<close>:
  \<^verbatim>\<open>
  empricalPressure10AOA[i]  =empricalPressureOver10AOA[i];
  empricalPressure10AOA[i+row-1]=empricalPressureUnder10AOA[i];
  \<close>
\<close>

definition over_then_under :: "real list \<Rightarrow> real list \<Rightarrow> real list" where
  "over_then_under ovr und =
     map (\<lambda>k. if k < row - 1 then ovr ! k else und ! (k - (row - 1))) [0..<totalLength]"

definition empricalPressure10AOA :: "real list list \<Rightarrow> real list" where
  "empricalPressure10AOA data =
     over_then_under (empricalPressureOver10AOA data) (empricalPressureUnder10AOA data)"

definition empricalPressure5AOA :: "real list list \<Rightarrow> real list" where
  "empricalPressure5AOA data =
     over_then_under (empricalPressureOver5AOA data) (empricalPressureUnder5AOA data)"

definition empricalPressure0AOA :: "real list list \<Rightarrow> real list" where
  "empricalPressure0AOA data =
     over_then_under (empricalPressureOver0AOA data) (empricalPressureUnder0AOA data)"

text \<open>
  The third loop fills \<open>empiricalPressureCoefficientsUncertain[sampleCount][totalLength]\<close>,
  one row for each angle of attack:
  \<^verbatim>\<open>
  for(int i = 0; i < totalLength; i++){
          empiricalPressureCoefficientsUncertain[0][i] = empricalPressure10AOA[i];
          empiricalPressureCoefficientsUncertain[1][i] = empricalPressure5AOA[i];
          empiricalPressureCoefficientsUncertain[2][i] = empricalPressure0AOA[i];
  }
  \<close>
\<close>

definition empiricalPressureCoefficientsUncertain :: "real list list \<Rightarrow> real list list" where
  "empiricalPressureCoefficientsUncertain data =
     [map (\<lambda>i. empricalPressure10AOA data ! i) [0..<totalLength],
      map (\<lambda>i. empricalPressure5AOA data ! i) [0..<totalLength],
      map (\<lambda>i. empricalPressure0AOA data ! i) [0..<totalLength]]"

text \<open>
  The variant with the pressure coefficients uncertain builds the same three arrays and
  then declares the matrix with an initialiser instead of the third loop:
  \<^verbatim>\<open>
  double empiricalPressureCoefficientsUncertain[sampleCount][2*(row-1)]  = {
      *empricalPressure10AOA ,
      *empricalPressure5AOA ,
      *empricalPressure0AOA
  };
  \<close>
  \<open>*empricalPressure10AOA\<close> is the double \<open>empricalPressure10AOA[0]\<close>. The three
  initialisers are scalars, so by the rule for an initialiser list without inner braces
  they fill the first three doubles of the first row, and every other double of the
  matrix is zero. (The bounds are \<open>int const\<close> locals in this variant; a compiler
  that takes them for constants, as C++ does, reads the declaration so.)
\<close>

definition empiricalPressureCoefficientsUncertain_pc :: "real list list \<Rightarrow> real list list" where
  "empiricalPressureCoefficientsUncertain_pc data =
     [[empricalPressure10AOA data ! 0, empricalPressure5AOA data ! 0,
       empricalPressure0AOA data ! 0] @ replicate (2 * (row - 1) - 3) 0,
      replicate (2 * (row - 1)) 0,
      replicate (2 * (row - 1)) 0]"

text \<open>
  \<open>libUncertainDoubleDistFromMultidimensionalSamples\<close> then stores one double for each of
  the \<open>totalLength\<close> positions in \<open>empiricalPressureCoefficients\<close>. The library belongs to
  the platform, not to the repository; the doubles that it stores are the parameter
  \<open>coeffs\<close> of what follows. The rest of \<open>loadInputs\<close> is
  \<^verbatim>\<open>
  for (int i = 0; i < sizeof(empiricalPressureCoefficients)/sizeof(double)/2; i++)
  {
      *v1 += V * sqrt(fabs(1-empiricalPressureCoefficients[i]));
      *v2 += V * sqrt(fabs(1-empiricalPressureCoefficients[row-1+i]));
  }
  *v1 /= sizeof(empiricalPressureCoefficients)/sizeof(double);
  *v2 /= sizeof(empiricalPressureCoefficients)/sizeof(double);
  \<close>
  where the array has \<open>totalLength\<close> elements. It is the same in both v3 variants.
\<close>

definition loadInputs_v3 :: "real list \<Rightarrow> real \<Rightarrow> real \<Rightarrow> outputs" where
  "loadInputs_v3 coeffs v1_0 v2_0 =
     (let V = 30.0; Rh = 0.0; h = 0.0; T = 15.0;
          (s1, s2) = velocity_loop V coeffs coeffs (row - 1) (totalLength div 2) 0 (v1_0, v2_0)
      in \<lparr>A = 0.23, v1 = s1 / real totalLength, v2 = s2 / real totalLength,
          r = density h T Rh\<rparr>)"

definition main_v3 :: "real list \<Rightarrow> real \<Rightarrow> real \<Rightarrow> dval" where
  "main_v3 coeffs v1_0 v2_0 = lift_of (loadInputs_v3 coeffs v1_0 v2_0)"

text \<open>
  Before that, \<open>main\<close> of the variant with the angle of attack uncertain looks at its
  arguments:
  \<^verbatim>\<open>
  if (argc < 1){
      printf("Please specify the CSV file as an input.\n");
      exit(0);
  }
  char fname[256]; strcpy(fname, argv[1]);
  \<close>
  \<open>argv\<close> is the list of the \<open>argc\<close> argument strings, the program's name first;
  \<open>argv[argc]\<close> is a null pointer. With \<open>argc = 1\<close> the \<open>strcpy\<close> reads from that null
  pointer, and with a path of 256 characters or more it writes past \<open>fname\<close>: both are
  undefined behaviour, and outcomes of their own here.
\<close>

datatype startup =
    UsageExit int
  | NullPath
  | FnameOverflow
  | ReadTable string

definition main_v3_arguments :: "string list \<Rightarrow> startup" where
  "main_v3_arguments argv =
     (let argc = int (length argv) in
      if argc < 1 then UsageExit 0
      else if argc < 2 then NullPath
      else if 256 \<le> length (argv ! 1) then FnameOverflow
      else ReadTable (argv ! 1))"

subsection \<open>The empirical distribution builder\<close>

text \<open>
  The uncertain values and the function that turns the sample matrix into one
  distribution for each position, \<open>libUncertainDoubleDistFromMultidimensionalSamples\<close>,
  are the platform's (\<open>uncertain.h\<close>); the repository holds only the calls. The types
  below are the specification's: its three construction variants of an uncertain value
  and the errors of its taxonomy that concern values and curves.
\<close>

datatype error = InvalidParameters | ShapeMismatch | DivisionByZero

datatype UncertainValue =
    Uniform real real
  | Gaussian real real
  | Empirical "real list"

text \<open>
  Modelled from the spec: the builder, whose code is not in the repository. Its contract
  in the specification: the input is \<open>k\<close> curves of one length \<open>n\<close>, and curves of
  unequal lengths are the error \<open>ShapeMismatch\<close>; the output is \<open>n\<close> uncertain values,
  the one at position \<open>i\<close> an \<open>Empirical\<close> distribution over the \<open>k\<close> values that the
  curves have at \<open>i\<close>, in the order of the curves, with nothing smoothed or interpolated.
\<close>

definition EmpiricalDistributionBuilder :: "real list list \<Rightarrow> error + UncertainValue list" where
  "EmpiricalDistributionBuilder curves =
     (case curves of
        [] \<Rightarrow> Inr []
      | c # cs \<Rightarrow>
          if list_all (\<lambda>d. length d = length c) cs
          then Inr (map (\<lambda>i. Empirical (map (\<lambda>d. d ! i) curves)) [0..<length c])
          else Inl ShapeMismatch)"

text \<open>The builder's result at one position.\<close>

definition position :: "error + UncertainValue list \<Rightarrow> nat \<Rightarrow> error + UncertainValue" where
  "position res i = (case res of Inl e \<Rightarrow> Inl e | Inr us \<Rightarrow> Inr (us ! i))"

subsection \<open>Two tables for running the programs\<close>

text \<open>A table of the right shape whose every row is \<open>0, 1, 2, 3, 4, 5, 6\<close>, so that each
  number tells the column it was read from, and the 278 coefficients that are all zero
  (what a table whose data rows hold only zeros gives at every position).\<close>

definition numbered_grid :: "real list list" where
  "numbered_grid = replicate 140 [0, 1, 2, 3, 4, 5, 6]"

definition zero_coefficients :: "real list" where
  "zero_coefficients = replicate 278 0"

subsection \<open>The formulas of the specification\<close>

text \<open>
  The specification's air density, in its own steps and letters, for a gravitational
  acceleration \<open>g\<close>:
  \<open>P_air = 101325 * exp(-g*M*h / (R*(T+273.15)))\<close>,
  \<open>P_sat = 6.1078 * 10^(7.5*T/(T+237.3))\<close>, \<open>P_vapor = P_sat * Rh\<close>,
  \<open>P_dry = P_air - P_vapor\<close> and
  \<open>density = P_dry/(287.058*(T+273.15)) + P_vapor/(461.495*(T+273.15))\<close>.
\<close>

definition spec_density :: "real \<Rightarrow> real \<Rightarrow> real \<Rightarrow> real \<Rightarrow> real" where
  "spec_density g T h Rh =
     (let M = 0.0289644; R = 8.31432;
          P_air = 101325 * exp (- g * M * h / (R * (T + 273.15)));
          P_sat = 6.1078 * 10 powr (7.5 * T / (T + 237.3));
          P_vapor = P_sat * Rh;
          P_dry = P_air - P_vapor
      in P_dry / (287.058 * (T + 273.15)) + P_vapor / (461.495 * (T + 273.15)))"

text \<open>
  The specification's surface velocity: \<open>V * sqrt(|1 - Cp|)\<close> averaged across the
  positions of one surface, that is the sum of the terms divided by their number.
\<close>

definition spec_average_velocity :: "real \<Rightarrow> real list \<Rightarrow> real" where
  "spec_average_velocity V Cps =
     sum_list (map (\<lambda>Cp. V * sqrt \<bar>1 - Cp\<bar>) Cps) / real (length Cps)"

text \<open>The sum of the \<open>n\<close> terms that a loop adds from an array, read from index \<open>off\<close>.\<close>

definition velocity_sum :: "real \<Rightarrow> real list \<Rightarrow> nat \<Rightarrow> nat \<Rightarrow> real" where
  "velocity_sum V xs off n = (\<Sum>k = 0..<n. velocity V (xs ! (off + k)))"

section \<open>Properties\<close>

subsection \<open>The loop as a sum\<close>

lemma velocity_loop_from:
  "velocity_loop V xs ys off n i (a, b) =
     (a + (\<Sum>k = i..<n. velocity V (xs ! k)), b + (\<Sum>k = i..<n. velocity V (ys ! (off + k))))"
proof (induction V xs ys off n i "(a, b)" arbitrary: a b rule: velocity_loop.induct)
  case (1 V xs ys off n i a b)
  show ?case
  proof (cases "i < n")
    case True
    then show ?thesis
      using 1 by (subst velocity_loop.simps) (simp add: sum.atLeast_Suc_lessThan add.assoc)
  next
    case False
    then show ?thesis
      by (subst velocity_loop.simps) simp
  qed
qed

lemma velocity_loop_sum:
  "velocity_loop V xs ys off n 0 (a, b) = (a + velocity_sum V xs 0 n, b + velocity_sum V ys off n)"
  by (simp only: velocity_loop_from velocity_sum_def add_0)

lemma velocity_sum_const:
  assumes "\<And>k. k < n \<Longrightarrow> velocity V (xs ! (off + k)) = c"
  shows "velocity_sum V xs off n = real n * c"
proof -
  have "(\<Sum>k = 0..<n. velocity V (xs ! (off + k))) = (\<Sum>k = 0..<n. c)"
    by (rule sum.cong) (simp_all add: assms)
  then show ?thesis
    by (simp add: velocity_sum_def)
qed

lemma velocity_sum_greater:
  assumes "0 < n" and "\<And>k. k < n \<Longrightarrow> c < velocity V (xs ! (off + k))"
  shows "real n * c < velocity_sum V xs off n"
proof -
  have "(\<Sum>k = 0..<n. c) < (\<Sum>k = 0..<n. velocity V (xs ! (off + k)))"
    by (rule sum_strict_mono) (use assms in simp_all)
  then show ?thesis
    by (simp add: velocity_sum_def)
qed

lemma velocity_sum_less:
  assumes "0 < n" and "\<And>k. k < n \<Longrightarrow> velocity V (xs ! (off + k)) < c"
  shows "velocity_sum V xs off n < real n * c"
proof -
  have "(\<Sum>k = 0..<n. velocity V (xs ! (off + k))) < (\<Sum>k = 0..<n. c)"
    by (rule sum_strict_mono) (use assms in simp_all)
  then show ?thesis
    by (simp add: velocity_sum_def)
qed

lemma velocity_sum_at_most:
  assumes "\<And>k. k < n \<Longrightarrow> velocity V (xs ! (off + k)) \<le> c"
  shows "velocity_sum V xs off n \<le> real n * c"
proof -
  have "(\<Sum>k = 0..<n. velocity V (xs ! (off + k))) \<le> (\<Sum>k = 0..<n. c)"
    by (rule sum_mono) (use assms in simp)
  then show ?thesis
    by (simp add: velocity_sum_def)
qed

lemma velocity_nonneg: "0 \<le> V \<Longrightarrow> 0 \<le> velocity V x"
  by (simp add: velocity_def)

lemma velocity_sum_nonneg: "0 \<le> V \<Longrightarrow> 0 \<le> velocity_sum V xs off n"
  unfolding velocity_sum_def by (rule sum_nonneg) (simp add: velocity_nonneg)

lemma length_Cp2: "length Cp2 = 83"
  by (simp add: Cp2_def)

lemma length_Cp1: "length Cp1 = 84"
  by (simp add: Cp1_def)

lemma length_OverAirfoil: "length empiricalPressureCoefficientOverAirfoil = 83"
  by (simp add: empiricalPressureCoefficientOverAirfoil_def)

lemma length_UnderAirfoil: "length empiricalPressureCoefficientUnderAirfoil = 84"
  by (simp add: empiricalPressureCoefficientUnderAirfoil_def)

lemma OverAirfoil_eq_Cp2: "empiricalPressureCoefficientOverAirfoil = Cp2"
  by (simp add: empiricalPressureCoefficientOverAirfoil_def Cp2_def)

lemma UnderAirfoil_eq_Cp1: "empiricalPressureCoefficientUnderAirfoil = Cp1"
  by (simp add: empiricalPressureCoefficientUnderAirfoil_def Cp1_def)

lemma totalLength_eq: "totalLength = 278"
  by (simp add: totalLength_def row_def)

subsection \<open>What \<open>loadInputs\<close> returns\<close>

lemma loadInputs_v1_eq:
  "loadInputs_v1 a b =
     \<lparr>A = 0.23, v1 = (a + velocity_sum 30 Cp1 0 83) / 84,
      v2 = (b + velocity_sum 30 Cp2 0 83) / 83, r = density 0 15 0\<rparr>"
  by (simp add: loadInputs_v1_def velocity_loop_sum length_Cp1 length_Cp2)

lemma loadInputs_v2_eq:
  "loadInputs_v2 Rh h T a b =
     \<lparr>A = 0.23, v1 = (a + velocity_sum 30 Cp2 0 83) / 83,
      v2 = (b + velocity_sum 30 Cp1 0 83) / 84, r = density h T Rh\<rparr>"
  by (simp add: loadInputs_v2_def velocity_loop_sum OverAirfoil_eq_Cp2 UnderAirfoil_eq_Cp1
      length_Cp1 length_Cp2)

lemma loadInputs_v3_eq:
  "loadInputs_v3 cs a b =
     \<lparr>A = 0.23, v1 = (a + velocity_sum 30 cs 0 139) / 278,
      v2 = (b + velocity_sum 30 cs 139 139) / 278, r = density 0 15 0\<rparr>"
  by (simp add: loadInputs_v3_def velocity_loop_sum totalLength_eq row_def)

subsection \<open>Doubles that stay finite, and doubles that do not\<close>

lemma overflow_large: "10 ^ 300 < overflow"
  by (simp add: overflow_def)

lemma fin_small: "\<bar>x\<bar> \<le> 10 ^ 300 \<Longrightarrow> fin x = Finite x"
  using overflow_large by (simp add: fin_def abs_le_iff)

lemma fin_between: "- 1000000 \<le> x \<Longrightarrow> x \<le> 1000000 \<Longrightarrow> fin x = Finite x"
  by (rule fin_small) (simp add: abs_le_iff)

lemma fin_zero: "fin 0 = Finite 0"
  by (rule fin_small) simp

lemma dadd_NaN_right: "dadd d NaN = NaN"
  by (cases d) simp_all

lemma ddiv_zero_not_finite: "\<not> is_finite (ddiv a (Finite 0))"
  by (cases a) simp_all

lemma dadd_not_finite: "\<not> is_finite a \<Longrightarrow> \<not> is_finite b \<Longrightarrow> \<not> is_finite (dadd a b)"
  by (cases a; cases b) simp_all

lemma dmul_not_finite: "\<not> is_finite a \<Longrightarrow> \<not> is_finite (dmul a b)"
  by (cases a; cases b) simp_all

lemma ddiv_not_finite: "\<not> is_finite a \<Longrightarrow> \<not> is_finite (ddiv a (Finite y))"
  by (cases a) simp_all

lemma quotient_bounds:
  fixes x a :: real
  assumes "1 \<le> a"
  shows "- \<bar>x\<bar> \<le> x / a" and "x / a \<le> \<bar>x\<bar>"
proof -
  have "\<bar>x\<bar> / a \<le> \<bar>x\<bar> / 1"
    by (rule divide_left_mono) (use assms in simp_all)
  then have le: "\<bar>x\<bar> / a \<le> \<bar>x\<bar>"
    by simp
  have "\<bar>a\<bar> = a"
    using assms by simp
  then have eq: "\<bar>x / a\<bar> = \<bar>x\<bar> / a"
    by (simp only: abs_divide)
  have "\<bar>x / a\<bar> \<le> \<bar>x\<bar>"
    by (rule ord_eq_le_trans [OF eq le])
  then show "- \<bar>x\<bar> \<le> x / a" and "x / a \<le> \<bar>x\<bar>"
    by (simp_all only: abs_le_iff minus_le_iff [of "x / a"])
qed

subsection \<open>The density\<close>

text \<open>
  With the elevation and the humidity anywhere in the supports of their distributions in
  v2 and the temperature within four standard deviations of its mean, every intermediate
  double is finite and the density is the number of the specification's formula with
  \<open>g = 9.81\<close>.
\<close>

lemma density_in_range:
  assumes T: "- 200 \<le> T" "T \<le> 200" and h: "0 \<le> h" "h \<le> 11019.2"
    and Rh: "0 \<le> Rh" "Rh \<le> 1"
  shows "density h T Rh = Finite (spec_density 9.81 T h Rh)"
proof -
  define K where "K = T + 273.15"
  define n where "n = - 9.81 * 0.0289644 * h"
  define a where "a = 8.31432 * K"
  define q where "q = n / a"
  define pair where "pair = exp q * 101325"
  define m where "m = 7.5 * T"
  define d where "d = T + 237.3"
  define y where "y = m / d"
  define p where "p = 10 powr y"
  define psat where "psat = 6.1078 * p"
  define pv where "pv = psat * Rh"
  define pd where "pd = pair - pv"
  define d1 where "d1 = 287.058 * K"
  define d2 where "d2 = 461.495 * K"
  have K: "73.15 \<le> K" "K \<le> 473.15"
    using T by (simp_all add: K_def)
  have n: "- 4000 \<le> n" "n \<le> 0"
    using h by (simp_all add: n_def)
  have a: "1 \<le> a" "a \<le> 4000"
    using K by (simp_all add: a_def)
  have q: "- 4000 \<le> q" "q \<le> 0"
  proof -
    show "- 4000 \<le> q"
      using quotient_bounds(1) [OF a(1), of n] n by (simp add: q_def)
    show "q \<le> 0"
      using n a by (simp add: q_def divide_nonpos_pos)
  qed
  have e: "0 < exp q" "exp q \<le> 1"
    using q by simp_all
  have pair: "0 \<le> pair" "pair \<le> 101325"
    using e by (simp_all add: pair_def)
  have m: "- 1500 \<le> m" "m \<le> 1500"
    using T by (simp_all add: m_def)
  have d: "1 \<le> d" "d \<le> 500" "m \<le> 4 * d"
    using T by (simp_all add: d_def m_def)
  have y: "- 1500 \<le> y" "y \<le> 4"
  proof -
    show "- 1500 \<le> y"
      using quotient_bounds(1) [OF d(1), of m] m by (simp add: y_def)
    have "0 < d"
      using d by simp
    then show "y \<le> 4"
      using d(3) by (simp add: y_def pos_divide_le_eq)
  qed
  have p: "0 < p" "p \<le> 10000"
  proof -
    show "0 < p"
      by (simp add: p_def)
    have "(10::real) powr y \<le> 10 powr 4"
      by (rule powr_mono) (use y in simp_all)
    then show "p \<le> 10000"
      by (simp add: p_def)
  qed
  have psat: "0 \<le> psat" "psat \<le> 62000"
    using p by (simp_all add: psat_def)
  have pv: "0 \<le> pv" "pv \<le> 62000"
  proof -
    show "0 \<le> pv"
      using psat Rh by (simp add: pv_def)
    have "psat * Rh \<le> psat"
      by (rule mult_left_le) (use psat Rh in simp_all)
    then show "pv \<le> 62000"
      using psat by (simp add: pv_def)
  qed
  have pd: "- 62000 \<le> pd" "pd \<le> 101325"
    using pair pv by (simp_all add: pd_def)
  have d1: "1 \<le> d1" "d1 \<le> 200000"
    using K by (simp_all add: d1_def)
  have d2: "1 \<le> d2" "d2 \<le> 300000"
    using K by (simp_all add: d2_def)
  have t1: "- 101325 \<le> pd / d1" "pd / d1 \<le> 101325"
    using quotient_bounds [OF d1(1), of pd] pd by simp_all
  have t2: "- 62000 \<le> pv / d2" "pv / d2 \<le> 62000"
    using quotient_bounds [OF d2(1), of pv] pv by simp_all
  have kelvin: "dadd (Finite T) (Finite 273.15) = Finite K"
    using K by (simp add: K_def fin_between)
  have "dmul (Finite (- 9.81 * 0.0289644)) (Finite h) = Finite n"
    using n by (simp add: n_def fin_between)
  moreover have "dmul (Finite 8.31432) (Finite K) = Finite a"
    using a by (simp add: a_def fin_between)
  moreover have "ddiv (Finite n) (Finite a) = Finite q"
    using a q by (simp add: q_def fin_between)
  moreover have "dexp (Finite q) = Finite (exp q)"
  proof -
    have "fin (exp q) = Finite (exp q)"
      by (rule fin_between) (use e in linarith)+
    then show ?thesis
      by simp
  qed
  moreover have "dmul (Finite (exp q)) (Finite 101325) = Finite pair"
  proof -
    have "fin pair = Finite pair"
      by (rule fin_between) (use pair in linarith)+
    then show ?thesis
      by (simp add: pair_def)
  qed
  ultimately have Pair: "Pair h T = Finite pair"
    by (simp only: Pair_def kelvin)
  have "dmul (Finite 7.5) (Finite T) = Finite m"
    using m by (simp add: m_def fin_between)
  moreover have "dadd (Finite T) (Finite 237.3) = Finite d"
    using d by (simp add: d_def fin_between)
  moreover have "ddiv (Finite m) (Finite d) = Finite y"
    using d y by (simp add: y_def fin_between)
  moreover have "dpow10 (Finite y) = Finite p"
  proof -
    have "fin p = Finite p"
      by (rule fin_between) (use p in linarith)+
    then show ?thesis
      by (simp add: p_def)
  qed
  moreover have "dmul (Finite 6.1078) (Finite p) = Finite psat"
  proof -
    have "fin psat = Finite psat"
      by (rule fin_between) (use psat in linarith)+
    then show ?thesis
      by (simp add: psat_def)
  qed
  ultimately have Psat: "Psat T = Finite psat"
    by (simp only: Psat_def)
  have Pv: "Pv T Rh = Finite pv"
  proof -
    have "fin pv = Finite pv"
      by (rule fin_between) (use pv in linarith)+
    then show ?thesis
      by (simp add: Pv_def Psat pv_def)
  qed
  have Pd: "Pd h T Rh = Finite pd"
  proof -
    have "fin pd = Finite pd"
      by (rule fin_between) (use pd in linarith)+
    then show ?thesis
      by (simp add: Pd_def dsub_def Pair Pv pd_def)
  qed
  have "dmul (Finite 287.058) (Finite K) = Finite d1"
    using d1 by (simp add: d1_def fin_between)
  moreover have "dmul (Finite 461.495) (Finite K) = Finite d2"
    using d2 by (simp add: d2_def fin_between)
  moreover have "ddiv (Finite pd) (Finite d1) = Finite (pd / d1)"
  proof -
    have "fin (pd / d1) = Finite (pd / d1)"
      by (rule fin_between) (use t1 in linarith)+
    moreover have "d1 \<noteq> 0"
      using d1 by simp
    ultimately show ?thesis
      by simp
  qed
  moreover have "ddiv (Finite pv) (Finite d2) = Finite (pv / d2)"
  proof -
    have "fin (pv / d2) = Finite (pv / d2)"
      by (rule fin_between) (use t2 in linarith)+
    moreover have "d2 \<noteq> 0"
      using d2 by simp
    ultimately show ?thesis
      by simp
  qed
  moreover have "dadd (Finite (pd / d1)) (Finite (pv / d2)) = Finite (pd / d1 + pv / d2)"
  proof -
    have "fin (pd / d1 + pv / d2) = Finite (pd / d1 + pv / d2)"
      by (rule fin_between) (use t1 t2 in linarith)+
    then show ?thesis
      by simp
  qed
  ultimately have "density h T Rh = Finite (pd / d1 + pv / d2)"
    by (simp only: density_def kelvin Pd Pv)
  moreover have "pd / d1 + pv / d2 = spec_density 9.81 T h Rh"
    by (simp add: spec_density_def Let_def pd_def pv_def psat_def p_def y_def m_def d_def
        pair_def q_def n_def a_def K_def d1_def d2_def mult.commute)
  ultimately show ?thesis
    by simp
qed

lemma density_literals: "density 0 15 0 = Finite (101325 / (287.058 * 288.15))"
proof -
  have "density 0 15 0 = Finite (spec_density 9.81 15 0 0)"
    by (rule density_in_range) simp_all
  then show ?thesis
    by (simp add: spec_density_def)
qed

text \<open>
  At \<open>T = -237.4\<close> the exponent of the saturation pressure is 17805 and \<open>pow\<close>
  overflows; with \<open>Rh = 0\<close> the vapour pressure is infinity times zero.
\<close>

lemma pow10_overflows: "overflow \<le> 10 powr 17805"
proof -
  have "(10::real) powr 309 \<le> 10 powr 17805"
    by (rule powr_mono) simp_all
  moreover have "(10::real) powr 309 = 10 ^ 309"
    by (simp only: powr_numeral zero_less_numeral)
  moreover have "overflow \<le> 10 ^ 309"
    by (simp add: overflow_def)
  ultimately show ?thesis
    by (simp only:)
qed

lemma Psat_overflow: "Psat (- 237.4) = PInf"
proof -
  have "dmul (Finite 7.5) (Finite (- 237.4)) = Finite (- 1780.5)"
    by (simp add: fin_between)
  moreover have "dadd (Finite (- 237.4)) (Finite 237.3) = Finite (- 0.1)"
    by (simp add: fin_between)
  moreover have "ddiv (Finite (- 1780.5)) (Finite (- 0.1)) = Finite 17805"
    by (simp add: fin_between)
  moreover have "dpow10 (Finite 17805) = PInf"
    using pow10_overflows by (simp only: dpow10.simps fin_def if_True)
  moreover have "dmul (Finite 6.1078) PInf = PInf"
    by simp
  ultimately show ?thesis
    by (simp only: Psat_def)
qed

lemma density_overflow: "density 0 (- 237.4) 0 = NaN"
proof -
  have Pv: "Pv (- 237.4) 0 = NaN"
    unfolding Pv_def Psat_overflow by simp
  have Pd: "Pd 0 (- 237.4) 0 = NaN"
    unfolding Pd_def dsub_def Pv by (simp add: dadd_NaN_right)
  show ?thesis
    unfolding density_def Pd Pv by simp
qed

text \<open>
  Where \<open>T + 273.15\<close> is zero both quotients of the density have the divisor zero, and
  the density is an infinity or a NaN whatever the pressures are.
\<close>

lemma kelvin_zero:
  assumes "T + 273.15 = 0"
  shows "dmul (Finite c) (dadd (Finite T) (Finite 273.15)) = Finite 0"
  using assms by (simp add: fin_zero)

lemma density_zero_divisor:
  assumes "T + 273.15 = 0"
  shows "\<not> is_finite (density h T Rh)"
  unfolding density_def kelvin_zero [OF assms]
  by (rule dadd_not_finite) (rule ddiv_zero_not_finite)+

lemma density_absolute_zero: "density 0 (- 273.15) 0 = NaN"
proof -
  have "dadd (Finite (- 273.15)) (Finite 273.15) = Finite 0"
    by (simp add: fin_zero)
  moreover have "dmul (Finite (- 9.81 * 0.0289644)) (Finite 0) = Finite 0"
    by (simp add: fin_zero)
  moreover have "dmul (Finite 8.31432) (Finite 0) = Finite 0"
    by (simp add: fin_zero)
  moreover have "ddiv (Finite 0) (Finite 0) = NaN"
    by simp
  ultimately have "Pair 0 (- 273.15) = NaN"
    by (simp only: Pair_def dexp.simps dmul.simps)
  then have "Pd 0 (- 273.15) 0 = NaN"
    by (simp only: Pd_def dsub_def dadd.simps)
  then show ?thesis
    by (simp only: density_def ddiv.simps dadd.simps)
qed

text \<open>
  At \<open>T = -237.3\<close> the exponent of the saturation pressure is a negative number over
  zero, minus infinity, and the saturation pressure is zero.
\<close>

lemma Psat_at_pole: "Psat (- 237.3) = Finite 0"
proof -
  have "dmul (Finite 7.5) (Finite (- 237.3)) = Finite (- 1779.75)"
    by (simp add: fin_between)
  moreover have "dadd (Finite (- 237.3)) (Finite 237.3) = Finite 0"
    by (simp add: fin_zero)
  moreover have "ddiv (Finite (- 1779.75)) (Finite 0) = NInf"
    by simp
  moreover have "dmul (Finite 6.1078) (Finite 0) = Finite 0"
    by (simp add: fin_zero)
  ultimately show ?thesis
    by (simp only: Psat_def dpow10.simps)
qed

text \<open>
  At \<open>T = -273.16\<close> and \<open>h = 1000\<close> the exponent of the air pressure is above 3000,
  \<open>exp\<close> overflows, and with \<open>Rh = 0\<close> the density is minus infinity.
\<close>

lemma exp_overflows:
  assumes "1024 \<le> x"
  shows "overflow \<le> exp x"
proof -
  have "(2::real) \<le> exp 1"
    using exp_ge_add_one_self [of 1] by simp
  then have "(2::real) ^ 1024 \<le> exp 1 ^ 1024"
    by (rule power_mono) simp
  also have "exp (1::real) ^ 1024 = exp (of_nat 1024 * 1)"
    by (rule exp_of_nat_mult [symmetric])
  also have "\<dots> \<le> exp x"
    using assms by simp
  finally show ?thesis
    by (simp add: overflow_def)
qed

lemma Pair_overflow: "Pair 1000 (- 273.16) = PInf"
proof -
  have "dadd (Finite (- 273.16)) (Finite 273.15) = Finite (- 0.01)"
    by (simp add: fin_between)
  moreover have "dmul (Finite 8.31432) (Finite (- 0.01)) = Finite (- 0.0831432)"
    by (simp add: fin_between)
  moreover have "dmul (Finite (- 9.81 * 0.0289644)) (Finite 1000) = Finite (- 284.140764)"
    by (simp add: fin_between)
  moreover have "ddiv (Finite (- 284.140764)) (Finite (- 0.0831432))
      = Finite (284.140764 / 0.0831432)"
    by (simp add: fin_between)
  moreover have "dexp (Finite (284.140764 / 0.0831432)) = PInf"
  proof -
    have "overflow \<le> exp (284.140764 / 0.0831432)"
      by (rule exp_overflows) simp
    then show ?thesis
      by (simp only: dexp.simps fin_def if_True)
  qed
  moreover have "dmul PInf (Finite 101325) = PInf"
    by simp
  ultimately show ?thesis
    by (simp only: Pair_def)
qed

lemma density_minus_infinity: "density 1000 (- 273.16) 0 = NInf"
proof -
  have kelvin: "dadd (Finite (- 273.16)) (Finite 273.15) = Finite (- 0.01)"
    by (simp add: fin_between)
  have m: "dmul (Finite 7.5) (Finite (- 273.16)) = Finite (- 2048.7)"
    by (simp add: fin_between)
  have d: "dadd (Finite (- 273.16)) (Finite 237.3) = Finite (- 35.86)"
    by (simp add: fin_between)
  have y: "ddiv (Finite (- 2048.7)) (Finite (- 35.86)) = Finite (2048.7 / 35.86)"
    by (simp add: fin_between)
  have pb: "0 < (10::real) powr (2048.7 / 35.86)" "(10::real) powr (2048.7 / 35.86) \<le> 10 ^ 58"
  proof -
    show "0 < (10::real) powr (2048.7 / 35.86)"
      by simp
    have "(10::real) powr (2048.7 / 35.86) \<le> 10 powr 58"
      by (rule powr_mono) simp_all
    then show "(10::real) powr (2048.7 / 35.86) \<le> 10 ^ 58"
      by simp
  qed
  have p: "dpow10 (Finite (2048.7 / 35.86)) = Finite (10 powr (2048.7 / 35.86))"
  proof -
    have "fin (10 powr (2048.7 / 35.86)) = Finite (10 powr (2048.7 / 35.86))"
      by (rule fin_small) (use pb in simp)
    then show ?thesis
      by (simp only: dpow10.simps)
  qed
  have psat: "dmul (Finite 6.1078) (Finite (10 powr (2048.7 / 35.86)))
      = Finite (6.1078 * 10 powr (2048.7 / 35.86))"
  proof -
    have "fin (6.1078 * 10 powr (2048.7 / 35.86)) = Finite (6.1078 * 10 powr (2048.7 / 35.86))"
      by (rule fin_small) (use pb in simp)
    then show ?thesis
      by (simp only: dmul.simps)
  qed
  have Psat: "Psat (- 273.16) = Finite (6.1078 * 10 powr (2048.7 / 35.86))"
    by (simp only: Psat_def m d y p psat)
  have Pv: "Pv (- 273.16) 0 = Finite 0"
    unfolding Pv_def Psat by (simp add: fin_zero)
  have Pd: "Pd 1000 (- 273.16) 0 = PInf"
    unfolding Pd_def dsub_def Pair_overflow Pv by simp
  have "dmul (Finite 287.058) (Finite (- 0.01)) = Finite (- 2.87058)"
    by (simp add: fin_between)
  moreover have "dmul (Finite 461.495) (Finite (- 0.01)) = Finite (- 4.61495)"
    by (simp add: fin_between)
  moreover have "ddiv PInf (Finite (- 2.87058)) = NInf"
    by simp
  moreover have "ddiv (Finite 0) (Finite (- 4.61495)) = Finite 0"
    by (simp add: fin_zero)
  moreover have "dadd NInf (Finite 0) = NInf"
    by simp
  ultimately show ?thesis
    by (simp only: density_def kelvin Pd Pv)
qed

text \<open>A density that is not finite gives a lift force that is not finite.\<close>

lemma lift_of_not_finite: "\<not> is_finite (r out) \<Longrightarrow> \<not> is_finite (lift_of out)"
  unfolding lift_of_def by (intro ddiv_not_finite dmul_not_finite)

subsection \<open>The loop's sum and the average of a surface\<close>

lemma velocity_sum_slice:
  assumes "off + n \<le> length xs"
  shows "velocity_sum V xs off n =
           sum_list (map (\<lambda>Cp. V * sqrt \<bar>1 - Cp\<bar>) (take n (drop off xs)))"
proof -
  let ?ys = "map (\<lambda>Cp. V * sqrt \<bar>1 - Cp\<bar>) (take n (drop off xs))"
  have len: "length ?ys = n"
    using assms by simp
  have "sum_list ?ys = (\<Sum>k = 0..<length ?ys. ?ys ! k)"
    by (rule sum_list_sum_nth)
  also have "\<dots> = (\<Sum>k = 0..<n. ?ys ! k)"
    by (simp only: len)
  also have "\<dots> = (\<Sum>k = 0..<n. velocity V (xs ! (off + k)))"
    by (rule sum.cong) (use assms in \<open>simp_all add: velocity_def\<close>)
  finally show ?thesis
    by (simp add: velocity_sum_def)
qed

lemma average_velocity_slice:
  assumes "off + n \<le> length xs"
  shows "spec_average_velocity V (take n (drop off xs)) = velocity_sum V xs off n / real n"
  using assms by (simp add: spec_average_velocity_def velocity_sum_slice)

text \<open>
  In v3 the loop adds 139 terms for each surface and the quotient is taken by 278: from
  zeroed variables each velocity is half the average of its surface.
\<close>

lemma v3_velocities_half_average:
  assumes "length cs = 278"
  shows "v1 (loadInputs_v3 cs 0 0) = spec_average_velocity 30 (take 139 cs) / 2
       \<and> v2 (loadInputs_v3 cs 0 0) = spec_average_velocity 30 (drop 139 cs) / 2"
proof -
  have "spec_average_velocity 30 (take 139 (drop 0 cs)) = velocity_sum 30 cs 0 139 / real 139"
    by (rule average_velocity_slice) (simp add: assms)
  moreover have "spec_average_velocity 30 (take 139 (drop 139 cs))
      = velocity_sum 30 cs 139 139 / real 139"
    by (rule average_velocity_slice) (simp add: assms)
  moreover have "take 139 (drop 139 cs) = drop 139 cs"
    by (simp add: assms)
  ultimately show ?thesis
    by (simp add: loadInputs_v3_eq)
qed

lemma zero_coefficients_sums:
  "velocity_sum 30 zero_coefficients 0 139 = 4170"
  "velocity_sum 30 zero_coefficients 139 139 = 4170"
proof -
  have "velocity_sum 30 zero_coefficients 0 139 = real 139 * 30"
    by (rule velocity_sum_const) (simp add: zero_coefficients_def velocity_def)
  then show "velocity_sum 30 zero_coefficients 0 139 = 4170"
    by simp
  have "velocity_sum 30 zero_coefficients 139 139 = real 139 * 30"
    by (rule velocity_sum_const) (simp add: zero_coefficients_def velocity_def)
  then show "velocity_sum 30 zero_coefficients 139 139 = 4170"
    by simp
qed

lemma zero_coefficients_average:
  "spec_average_velocity 30 (take 139 zero_coefficients) = 30"
  "spec_average_velocity 30 (drop 139 zero_coefficients) = 30"
  by (simp_all add: spec_average_velocity_def zero_coefficients_def sum_list_replicate)

text \<open>
  In every variant the value that a velocity has on return is the value it would have
  from zeroed variables plus the caller's initial contents over the divisor of the last
  statements.
\<close>

lemma velocities_from_initial_contents:
  "v1 (loadInputs_v1 a b) = v1 (loadInputs_v1 0 0) + a / 84
   \<and> v2 (loadInputs_v1 a b) = v2 (loadInputs_v1 0 0) + b / 83
   \<and> v1 (loadInputs_v2 Rh h T a b) = v1 (loadInputs_v2 Rh h T 0 0) + a / 83
   \<and> v2 (loadInputs_v2 Rh h T a b) = v2 (loadInputs_v2 Rh h T 0 0) + b / 84
   \<and> v1 (loadInputs_v3 cs a b) = v1 (loadInputs_v3 cs 0 0) + a / 278
   \<and> v2 (loadInputs_v3 cs a b) = v2 (loadInputs_v3 cs 0 0) + b / 278"
  by (simp add: loadInputs_v1_eq loadInputs_v2_eq loadInputs_v3_eq add_divide_distrib)

subsection \<open>The two hardcoded surfaces\<close>

lemma Cp2_negative: "\<forall>x\<in>set Cp2. x < 0"
  by (simp add: Cp2_def)

lemma Cp2_above: "\<forall>x\<in>set Cp2. - 3 \<le> x"
  by (simp add: Cp2_def)

lemma Cp1_range: "\<forall>x\<in>set Cp1. 0 < x \<and> x < 2"
  by (simp add: Cp1_def)

lemma velocity_above_stream: "x < 0 \<Longrightarrow> 30 < velocity 30 x"
  by (simp add: velocity_def)

lemma velocity_below_stream: "0 < x \<Longrightarrow> x < 2 \<Longrightarrow> velocity 30 x < 30"
  by (simp add: velocity_def abs_if)

lemma velocity_at_most_twice_stream:
  assumes "- 3 \<le> x" and "x < 0"
  shows "velocity 30 x \<le> 60"
proof -
  have "sqrt \<bar>1 - x\<bar> \<le> sqrt 4"
    by (rule real_sqrt_le_mono) (use assms in simp)
  then show ?thesis
    by (simp add: velocity_def)
qed

lemma over_sum_bound: "83 * 30 < velocity_sum 30 Cp2 0 83"
proof -
  have "real 83 * 30 < velocity_sum 30 Cp2 0 83"
  proof (rule velocity_sum_greater)
    fix k :: nat
    assume "k < 83"
    then have "Cp2 ! (0 + k) \<in> set Cp2"
      by (simp add: length_Cp2)
    then show "30 < velocity 30 (Cp2 ! (0 + k))"
      using Cp2_negative velocity_above_stream by blast
  qed simp
  then show ?thesis
    by simp
qed

lemma over_sum_at_most: "velocity_sum 30 Cp2 0 83 \<le> 83 * 60"
proof -
  have "velocity_sum 30 Cp2 0 83 \<le> real 83 * 60"
  proof (rule velocity_sum_at_most)
    fix k :: nat
    assume "k < 83"
    then have "Cp2 ! (0 + k) \<in> set Cp2"
      by (simp add: length_Cp2)
    then show "velocity 30 (Cp2 ! (0 + k)) \<le> 60"
      using Cp2_negative Cp2_above velocity_at_most_twice_stream by blast
  qed
  then show ?thesis
    by simp
qed

lemma under_sum_bound: "velocity_sum 30 Cp1 0 83 < 83 * 30"
proof -
  have "velocity_sum 30 Cp1 0 83 < real 83 * 30"
  proof (rule velocity_sum_less)
    fix k :: nat
    assume "k < 83"
    then have "Cp1 ! (0 + k) \<in> set Cp1"
      by (simp add: length_Cp1)
    then show "velocity 30 (Cp1 ! (0 + k)) < 30"
      using Cp1_range velocity_below_stream by blast
  qed simp
  then show ?thesis
    by simp
qed

lemma under_square_less_over_square:
  "(velocity_sum 30 Cp1 0 83 / 84)\<^sup>2 < (velocity_sum 30 Cp2 0 83 / 83)\<^sup>2"
proof -
  let ?u = "velocity_sum 30 Cp1 0 83 / 84"
  let ?o = "velocity_sum 30 Cp2 0 83 / 83"
  have "0 \<le> velocity_sum 30 Cp1 0 83"
    by (rule velocity_sum_nonneg) simp
  then have "0 \<le> ?u"
    by simp
  moreover have "?u < 30"
    using under_sum_bound by simp
  moreover have "30 < ?o"
    using over_sum_bound by simp
  ultimately have "?u < ?o" "0 \<le> ?u"
    by simp_all
  then show ?thesis
    by (rule power_strict_mono) simp
qed

subsection \<open>The lift force\<close>

lemma velocity_square: "(velocity V c)\<^sup>2 = V\<^sup>2 * \<bar>1 - c\<bar>"
  by (simp add: velocity_def power_mult_distrib)

lemma liftForce_velocity:
  "liftForce rho area (velocity V a) (velocity V b)
     = (rho * area * V\<^sup>2 / 2) * (\<bar>1 - a\<bar> - \<bar>1 - b\<bar>)"
  by (simp add: liftForce_def velocity_square algebra_simps)

lemma liftForce_swap: "liftForce rho area u1 u2 = - liftForce rho area u2 u1"
  by (simp add: liftForce_def field_simps)

lemma liftForce_negative:
  "0 < rho \<Longrightarrow> 0 < area \<Longrightarrow> u1\<^sup>2 < u2\<^sup>2 \<Longrightarrow> liftForce rho area u1 u2 < 0"
  by (simp add: liftForce_def mult_pos_neg)

text \<open>
  For a finite density of magnitude at most 10, an area of magnitude at most 1 and
  velocities of magnitude at most 100 nothing overflows, and the lift force that \<open>main\<close>
  prints is \<open>liftForce\<close>.
\<close>

lemma lift_of_finite:
  assumes rho: "r out = Finite rho" "\<bar>rho\<bar> \<le> 10" and area: "\<bar>A out\<bar> \<le> 1"
    and u1: "\<bar>v1 out\<bar> \<le> 100" and u2: "\<bar>v2 out\<bar> \<le> 100"
  shows "lift_of out = Finite (liftForce rho (A out) (v1 out) (v2 out))"
proof -
  define ra where "ra = rho * A out"
  define s1 where "s1 = (v1 out)\<^sup>2"
  define s2 where "s2 = (v2 out)\<^sup>2"
  define df where "df = s1 - s2"
  have "\<bar>rho\<bar> * \<bar>A out\<bar> \<le> 10 * 1"
    by (rule mult_mono) (use rho area in simp_all)
  then have ra: "\<bar>ra\<bar> \<le> 10"
    by (simp add: ra_def abs_mult)
  have "\<bar>v1 out\<bar>\<^sup>2 \<le> 100\<^sup>2"
    by (rule power_mono) (use u1 in simp_all)
  then have s1: "0 \<le> s1" "s1 \<le> 10000"
    by (simp_all add: s1_def)
  have "\<bar>v2 out\<bar>\<^sup>2 \<le> 100\<^sup>2"
    by (rule power_mono) (use u2 in simp_all)
  then have s2: "0 \<le> s2" "s2 \<le> 10000"
    by (simp_all add: s2_def)
  have df: "\<bar>df\<bar> \<le> 10000"
    using s1 s2 by (simp add: df_def abs_le_iff)
  have "\<bar>ra\<bar> * \<bar>df\<bar> \<le> 10 * 10000"
    by (rule mult_mono) (use ra df in simp_all)
  then have prod: "\<bar>ra * df\<bar> \<le> 100000"
    by (simp add: abs_mult)
  have "dmul (Finite rho) (Finite (A out)) = Finite ra"
  proof -
    have "fin ra = Finite ra"
      by (rule fin_between) (use ra in linarith)+
    then show ?thesis
      by (simp add: ra_def)
  qed
  moreover have "dsquare (Finite (v1 out)) = Finite s1"
  proof -
    have "fin s1 = Finite s1"
      by (rule fin_between) (use s1 in linarith)+
    then show ?thesis
      by (simp add: s1_def)
  qed
  moreover have "dsquare (Finite (v2 out)) = Finite s2"
  proof -
    have "fin s2 = Finite s2"
      by (rule fin_between) (use s2 in linarith)+
    then show ?thesis
      by (simp add: s2_def)
  qed
  moreover have "dsub (Finite s1) (Finite s2) = Finite df"
  proof -
    have "fin df = Finite df"
      by (rule fin_between) (use df in linarith)+
    then show ?thesis
      by (simp add: dsub_def df_def)
  qed
  moreover have "dmul (Finite ra) (Finite df) = Finite (ra * df)"
  proof -
    have "fin (ra * df) = Finite (ra * df)"
      by (rule fin_between) (use prod in linarith)+
    then show ?thesis
      by simp
  qed
  moreover have "ddiv (Finite (ra * df)) (Finite 2.0) = Finite (ra * df / 2)"
  proof -
    have "fin (ra * df / 2) = Finite (ra * df / 2)"
      by (rule fin_between) (use prod in linarith)+
    then show ?thesis
      by simp
  qed
  ultimately have "lift_of out = Finite (ra * df / 2)"
    by (simp only: lift_of_def rho(1))
  then show ?thesis
    by (simp add: liftForce_def ra_def df_def s1_def s2_def)
qed

lemma hardcoded_velocities_small:
  "\<bar>velocity_sum 30 Cp1 0 83 / 84\<bar> \<le> 100" "\<bar>velocity_sum 30 Cp2 0 83 / 83\<bar> \<le> 100"
proof -
  have "0 \<le> velocity_sum 30 Cp1 0 83"
    by (rule velocity_sum_nonneg) simp
  then show "\<bar>velocity_sum 30 Cp1 0 83 / 84\<bar> \<le> 100"
    using under_sum_bound by simp
  have "0 \<le> velocity_sum 30 Cp2 0 83"
    by (rule velocity_sum_nonneg) simp
  then show "\<bar>velocity_sum 30 Cp2 0 83 / 83\<bar> \<le> 100"
    using over_sum_at_most by simp
qed

lemma main_v1_value:
  "main_v1 0 0 = Finite (liftForce (101325 / (287.058 * 288.15)) 0.23
      (velocity_sum 30 Cp1 0 83 / 84) (velocity_sum 30 Cp2 0 83 / 83))"
proof -
  have "lift_of (loadInputs_v1 0 0) =
      Finite (liftForce (101325 / (287.058 * 288.15)) (A (loadInputs_v1 0 0))
        (v1 (loadInputs_v1 0 0)) (v2 (loadInputs_v1 0 0)))"
    by (rule lift_of_finite)
       (use hardcoded_velocities_small in \<open>simp_all add: loadInputs_v1_eq density_literals\<close>)
  then show ?thesis
    by (simp add: main_v1_def loadInputs_v1_eq)
qed

lemma main_v2_value:
  "main_v2 0 0 15 0 0 = Finite (liftForce (101325 / (287.058 * 288.15)) 0.23
      (velocity_sum 30 Cp2 0 83 / 83) (velocity_sum 30 Cp1 0 83 / 84))"
proof -
  have "lift_of (loadInputs_v2 0 0 15 0 0) =
      Finite (liftForce (101325 / (287.058 * 288.15)) (A (loadInputs_v2 0 0 15 0 0))
        (v1 (loadInputs_v2 0 0 15 0 0)) (v2 (loadInputs_v2 0 0 15 0 0)))"
    by (rule lift_of_finite)
       (use hardcoded_velocities_small in \<open>simp_all add: loadInputs_v2_eq density_literals\<close>)
  then show ?thesis
    by (simp add: main_v2_def loadInputs_v2_eq)
qed

text \<open>
  With \<open>10^160\<close> in \<open>*v1\<close> on entry the square of the first velocity overflows, and v3
  prints infinity.
\<close>

lemma square_overflows: "dsquare (Finite ((10 ^ 160 + 4170) / 278)) = PInf"
proof -
  have "overflow \<le> ((10 ^ 160 + 4170) / 278)\<^sup>2"
    by (simp add: overflow_def power_divide)
  then show ?thesis
    by (simp only: dsquare.simps fin_def if_True)
qed

lemma lift_overflows: "main_v3 zero_coefficients (10 ^ 160) 0 = PInf"
proof -
  have "dmul (Finite (101325 / (287.058 * 288.15))) (Finite 0.23)
      = Finite (101325 / (287.058 * 288.15) * 0.23)"
    by (simp add: fin_between)
  moreover have "dsquare (Finite (4170 / 278)) = Finite ((4170 / 278)\<^sup>2)"
    by (simp add: fin_between power_divide)
  moreover have "dsub PInf (Finite ((4170 / 278)\<^sup>2)) = PInf"
    by (simp add: dsub_def)
  moreover have "dmul (Finite (101325 / (287.058 * 288.15) * 0.23)) PInf = PInf"
    by simp
  moreover have "ddiv PInf (Finite 2.0) = PInf"
    by simp
  ultimately show ?thesis
    by (simp only: main_v3_def lift_of_def loadInputs_v3_eq outputs.select_convs
        density_literals zero_coefficients_sums add_0 square_overflows)
qed

subsection \<open>The table and the sample matrix\<close>

lemma column_nth:
  assumes "1 \<le> i" and "i < 140"
  shows "column data j ! (i - 1) = data ! i ! j"
proof -
  have "[1..<140] ! (i - 1) = 1 + (i - 1)"
    by (rule nth_upt) (use assms in simp)
  moreover have "i - 1 < length [1..<140]"
    using assms by simp
  ultimately show ?thesis
    using assms by (simp add: column_def)
qed

lemma column_nth_Suc: "i < 139 \<Longrightarrow> column data j ! i = data ! (i + 1) ! j"
  using column_nth [of "i + 1" data j] by simp

lemma numbered_grid_nth: "i < 140 \<Longrightarrow> numbered_grid ! i = [0, 1, 2, 3, 4, 5, 6]"
  by (simp add: numbered_grid_def)

lemma length_over_then_under: "length (over_then_under ovr und) = 278"
  by (simp add: over_then_under_def totalLength_eq)

lemma over_then_under_over: "i < 139 \<Longrightarrow> over_then_under ovr und ! i = ovr ! i"
  by (simp add: over_then_under_def totalLength_eq row_def)

lemma over_then_under_under: "i < 139 \<Longrightarrow> over_then_under ovr und ! (139 + i) = und ! i"
  by (simp add: over_then_under_def totalLength_eq row_def)

lemma copy_all:
  "map (\<lambda>i. over_then_under ovr und ! i) [0..<totalLength] = over_then_under ovr und"
proof -
  have "map (\<lambda>i. over_then_under ovr und ! i) [0..<length (over_then_under ovr und)]
      = over_then_under ovr und"
    by (rule map_nth)
  then show ?thesis
    by (simp only: length_over_then_under totalLength_eq)
qed

lemma matrix_rows:
  "empiricalPressureCoefficientsUncertain data =
     [empricalPressure10AOA data, empricalPressure5AOA data, empricalPressure0AOA data]"
  by (simp only: empiricalPressureCoefficientsUncertain_def empricalPressure10AOA_def
      empricalPressure5AOA_def empricalPressure0AOA_def copy_all)

lemma builder_three_curves:
  assumes "length c1 = length c0" and "length c2 = length c0" and "i < length c0"
  shows "position (EmpiricalDistributionBuilder [c0, c1, c2]) i
           = Inr (Empirical [c0 ! i, c1 ! i, c2 ! i])"
  using assms by (simp add: EmpiricalDistributionBuilder_def position_def)

text \<open>The example of the specification, and its curves of unequal lengths.\<close>

lemma builder_shape_example:
  "EmpiricalDistributionBuilder [[1, 2, 3], [4, 5, 6], [7, 8, 9]]
     = Inr [Empirical [1, 4, 7], Empirical [2, 5, 8], Empirical [3, 6, 9]]"
  "EmpiricalDistributionBuilder [[1, 2, 3], [4, 5, 6], [7, 8]] = Inl ShapeMismatch"
  by (simp_all add: EmpiricalDistributionBuilder_def upt_rec)

text \<open>
  With the angle of attack uncertain, the matrix handed to the builder has the three
  curves as its rows, so the builder's value at every position is the empirical
  distribution over the three coefficients of that position, for 10, 5 and 0 degrees in
  this order; the positions 0 to 138 are read from the columns 1, 2, 3 of the table and
  the positions 139 to 277 from the columns 6, 5, 4.
\<close>

lemma aoa_builder_output:
  assumes "i < 278"
  shows "position (EmpiricalDistributionBuilder (empiricalPressureCoefficientsUncertain data)) i =
     Inr (Empirical [empricalPressure10AOA data ! i, empricalPressure5AOA data ! i,
                     empricalPressure0AOA data ! i])"
  unfolding matrix_rows
  by (rule builder_three_curves)
     (simp_all add: assms empricalPressure10AOA_def empricalPressure5AOA_def
        empricalPressure0AOA_def length_over_then_under)

lemma aoa_over_positions:
  assumes "i < 139"
  shows "empricalPressure10AOA data ! i = data ! (i + 1) ! 1
       \<and> empricalPressure5AOA data ! i = data ! (i + 1) ! 2
       \<and> empricalPressure0AOA data ! i = data ! (i + 1) ! 3"
  by (simp only: empricalPressure10AOA_def empricalPressure5AOA_def empricalPressure0AOA_def
      over_then_under_over [OF assms] empricalPressureOver10AOA_def empricalPressureOver5AOA_def
      empricalPressureOver0AOA_def column_nth_Suc [OF assms] simp_thms)

lemma aoa_under_positions:
  assumes "i < 139"
  shows "empricalPressure10AOA data ! (139 + i) = data ! (i + 1) ! 6
       \<and> empricalPressure5AOA data ! (139 + i) = data ! (i + 1) ! 5
       \<and> empricalPressure0AOA data ! (139 + i) = data ! (i + 1) ! 4"
  by (simp only: empricalPressure10AOA_def empricalPressure5AOA_def empricalPressure0AOA_def
      over_then_under_under [OF assms] empricalPressureUnder10AOA_def
      empricalPressureUnder5AOA_def empricalPressureUnder0AOA_def column_nth_Suc [OF assms]
      simp_thms)

lemma numbered_curves_0:
  "empricalPressure10AOA numbered_grid ! 0 = 1 \<and> empricalPressure5AOA numbered_grid ! 0 = 2
   \<and> empricalPressure0AOA numbered_grid ! 0 = 3"
  using aoa_over_positions [of 0 numbered_grid] by (simp add: numbered_grid_nth)

lemma numbered_curves_1:
  "empricalPressure10AOA numbered_grid ! 1 = 1 \<and> empricalPressure5AOA numbered_grid ! 1 = 2
   \<and> empricalPressure0AOA numbered_grid ! 1 = 3"
  using aoa_over_positions [of 1 numbered_grid] by (simp add: numbered_grid_nth)

text \<open>
  With the pressure coefficients uncertain, the matrix holds three doubles of position 0
  and zeros, so at position 1 the builder sees the 5 degree coefficient of position 0 and
  two zeros.
\<close>

lemma pc_matrix_position_1:
  "position (EmpiricalDistributionBuilder (empiricalPressureCoefficientsUncertain_pc data)) 1 =
     Inr (Empirical [empricalPressure5AOA data ! 0, 0, 0])"
proof -
  let ?row0 = "[empricalPressure10AOA data ! 0, empricalPressure5AOA data ! 0,
       empricalPressure0AOA data ! 0] @ replicate (2 * (row - 1) - 3) 0"
  let ?zeros = "replicate (2 * (row - 1)) (0::real)"
  have "position (EmpiricalDistributionBuilder [?row0, ?zeros, ?zeros]) 1
      = Inr (Empirical [?row0 ! 1, ?zeros ! 1, ?zeros ! 1])"
    by (rule builder_three_curves) (simp_all add: row_def)
  then show ?thesis
    by (simp add: empiricalPressureCoefficientsUncertain_pc_def row_def)
qed

text \<open>The usage message is printed for an empty argument vector and for no other.\<close>

lemma usage_exit_iff: "(main_v3_arguments argv = UsageExit 0) = (argv = [])"
  by (auto simp add: main_v3_arguments_def Let_def)

section \<open>The claims\<close>

text \<open>
  Claim C1: in every variant the velocity over the airfoil is the average of
  \<open>V * sqrt(|1 - Cp_i|)\<close> across the positions over the airfoil, the sum of the terms
  divided by the number of positions summed, and likewise under the airfoil.

  The code does not compute that. In v3 the loop adds the 139 terms of a surface and the
  sum is divided by 278, the length of the whole array. With every coefficient zero and
  \<open>*v1\<close>, \<open>*v2\<close> zero on entry, each term is 30 and so is the average of each surface,
  and \<open>loadInputs\<close> returns 15 for both velocities.
\<close>

theorem v3_velocity_half_of_average:
  "v1 (loadInputs_v3 zero_coefficients 0 0) = 15
   \<and> spec_average_velocity 30 (take 139 zero_coefficients) = 30
   \<and> v2 (loadInputs_v3 zero_coefficients 0 0) = 15
   \<and> spec_average_velocity 30 (drop 139 zero_coefficients) = 30"
  by (simp add: loadInputs_v3_eq zero_coefficients_sums zero_coefficients_average)

text \<open>
  Claim C2: for every position from 0 to 277 the builder's value is the empirical
  distribution over exactly the three coefficients of that position, for 10, 5 and 0
  degrees, the positions 0 to 138 over the airfoil and 139 to 277 under it.

  The variant with the angle of attack uncertain hands the builder such a matrix
  (\<open>aoa_builder_output\<close>); the variant with the pressure coefficients uncertain does not.
  On the table whose rows are \<open>0, 1, 2, 3, 4, 5, 6\<close> the three curves have 1, 2 and 3 at
  position 1. The builder's value at position 1 is the distribution over 2, 0 and 0 in
  the second variant, and the distribution over 1, 2 and 3 in the first.
\<close>

theorem pc_variant_builder_samples:
  "position (EmpiricalDistributionBuilder
      (empiricalPressureCoefficientsUncertain_pc numbered_grid)) 1 = Inr (Empirical [2, 0, 0])
   \<and> [empricalPressure10AOA numbered_grid ! 1, empricalPressure5AOA numbered_grid ! 1,
       empricalPressure0AOA numbered_grid ! 1] = [1, 2, 3]
   \<and> position (EmpiricalDistributionBuilder
      (empiricalPressureCoefficientsUncertain numbered_grid)) 1 = Inr (Empirical [1, 2, 3])"
proof (intro conjI)
  show "position (EmpiricalDistributionBuilder
          (empiricalPressureCoefficientsUncertain_pc numbered_grid)) 1
        = Inr (Empirical [2, 0, 0])"
    by (simp only: pc_matrix_position_1 numbered_curves_0)
  show "[empricalPressure10AOA numbered_grid ! 1, empricalPressure5AOA numbered_grid ! 1,
         empricalPressure0AOA numbered_grid ! 1] = [1, 2, 3]"
    by (simp only: numbered_curves_1)
  have "(1::nat) < 278"
    by simp
  then show "position (EmpiricalDistributionBuilder
          (empiricalPressureCoefficientsUncertain numbered_grid)) 1
        = Inr (Empirical [1, 2, 3])"
    by (simp only: aoa_builder_output numbered_curves_1)
qed

text \<open>
  Claim C3: arithmetic on degenerate uncertain values is scalar arithmetic, so v2 with
  the degenerate inputs \<open>T = 15\<close>, \<open>h = 0\<close>, \<open>Rh = 0\<close> computes the lift force of v1.

  The code does not. With those inputs, and \<open>*v1\<close>, \<open>*v2\<close> zero on entry in both
  programs, v1 and v2 compute the same density and the same two velocities, but v1 adds
  the terms under the airfoil into \<open>*v1\<close> and v2 the terms over the airfoil, and both
  print \<open>r*A*(v1^2 - v2^2)/2\<close>. Both lift forces are finite, the lift force of v2 is
  the lift force of v1 with the opposite sign, and it is not zero. (v1 is read as its
  text says; as it stands the redeclared arrays keep it from compiling.)
\<close>

theorem v2_lift_is_v1_lift_negated:
  "main_v2 0 0 15 0 0 = dneg (main_v1 0 0) \<and> main_v1 0 0 \<noteq> main_v2 0 0 15 0 0
   \<and> is_finite (main_v1 0 0)"
proof -
  let ?u = "velocity_sum 30 Cp1 0 83 / 84"
  let ?o = "velocity_sum 30 Cp2 0 83 / 83"
  let ?rho = "101325 / (287.058 * 288.15) :: real"
  have neg: "liftForce ?rho 0.23 ?u ?o < 0"
    by (rule liftForce_negative) (simp_all add: under_square_less_over_square)
  have swap: "liftForce ?rho 0.23 ?o ?u = - liftForce ?rho 0.23 ?u ?o"
    by (rule liftForce_swap)
  show ?thesis
    unfolding main_v1_value main_v2_value using neg swap by simp
qed

text \<open>
  Claim C4: for all inputs \<open>T\<close>, \<open>h\<close>, \<open>Rh\<close> the computed air density is
  \<open>P_dry/(287.058*(T+273.15)) + P_vapor/(461.495*(T+273.15))\<close> with the pressures of
  the specification, \<open>M = 0.0289644\<close> and \<open>R = 8.31432\<close>.

  Not for all inputs: the density is computed in doubles. At \<open>T = -237.4\<close>, \<open>h = 0\<close>,
  \<open>Rh = 0\<close> the formula has a value, and in the code \<open>pow(10.0, 17805)\<close> overflows, the
  vapour pressure is infinity times zero and the density that v2 stores is NaN.
\<close>

theorem density_is_nan_where_pow_overflows:
  "r (loadInputs_v2 0 0 (- 237.4) 0 0) = NaN
   \<and> r (loadInputs_v2 0 0 (- 237.4) 0 0) \<noteq> Finite (spec_density 9.81 (- 237.4) 0 0)"
proof -
  have stored: "r (loadInputs_v2 0 0 (- 237.4) 0 0) = NaN"
    by (simp only: loadInputs_v2_eq outputs.select_convs density_overflow)
  show ?thesis
    unfolding stored by simp
qed

text \<open>
  Claim C4, amended: for every elevation from 0 to 11019.2 and every humidity from 0 to
  1, the supports of their distributions in v2, and every temperature from -200 to 200
  degrees, four standard deviations around the mean of its distribution, the air density
  that v2 computes is the number of the specification's formula with \<open>g = 9.81\<close>,
  \<open>M = 0.0289644\<close> and \<open>R = 8.31432\<close>, rounding left out; v1 and v3 compute that number
  for \<open>T = 15\<close>, \<open>h = 0\<close> and \<open>Rh = 0\<close>.
\<close>

theorem density_matches_specification:
  assumes "- 200 \<le> T" and "T \<le> 200" and "0 \<le> h" and "h \<le> 11019.2"
    and "0 \<le> Rh" and "Rh \<le> 1"
  shows "r (loadInputs_v2 Rh h T a b) = Finite (spec_density 9.81 T h Rh)
       \<and> r (loadInputs_v1 a b) = Finite (spec_density 9.81 15 0 0)
       \<and> r (loadInputs_v3 cs a b) = Finite (spec_density 9.81 15 0 0)"
proof -
  have "density h T Rh = Finite (spec_density 9.81 T h Rh)"
    by (rule density_in_range) (rule assms)+
  moreover have "density 0 15 0 = Finite (spec_density 9.81 15 0 0)"
    by (rule density_in_range) simp_all
  ultimately show ?thesis
    by (simp add: loadInputs_v1_eq loadInputs_v2_eq loadInputs_v3_eq)
qed

text \<open>
  Claim C4, amended, at 20 degrees, 1000 metres and a humidity of one half, where no
  term of the formula drops out.
\<close>

theorem density_matches_specification_witness:
  "- 200 \<le> (20::real) \<and> (20::real) \<le> 200 \<and> 0 \<le> (1000::real) \<and> (1000::real) \<le> 11019.2
   \<and> 0 \<le> (1/2::real) \<and> (1/2::real) \<le> 1
   \<and> r (loadInputs_v2 (1/2) 1000 20 0 0) = Finite (spec_density 9.81 20 1000 (1/2))"
  using density_matches_specification [of 20 1000 "1/2" 0 0 "[]"] by simp

text \<open>
  Claim C5: a division by an uncertain value whose support includes zero raises
  \<open>DivisionByZero\<close> instead of producing an infinity or a NaN, and so does the density
  of v2, where \<open>T\<close> is Gaussian with mean 0 and deviation 50.

  It does not: \<open>loadInputs\<close> has no error to raise, and its divisions are C's. At
  \<open>T = -273.15\<close>, a temperature in the support, with \<open>Rh = 0\<close> and \<open>h = 0\<close>, the air
  pressure is the NaN of \<open>0/0\<close>, and the density that is stored and the lift force that
  \<open>main\<close> prints are NaN.
\<close>

theorem density_at_zero_divisor_is_not_an_error:
  "r (loadInputs_v2 0 0 (- 273.15) 0 0) = NaN \<and> main_v2 0 0 (- 273.15) 0 0 = NaN"
proof -
  have stored: "r (loadInputs_v2 0 0 (- 273.15) 0 0) = NaN"
    by (simp only: loadInputs_v2_eq outputs.select_convs density_absolute_zero)
  show ?thesis
    unfolding main_v2_def lift_of_def stored by simp
qed

text \<open>
  Claim C5, amended: the density of v2 is computed by unguarded divisions and no error
  is reported: at \<open>T = -273.15\<close>, where both divisors are zero, the density that
  \<open>loadInputs\<close> stores and the lift force that \<open>main\<close> prints are an infinity or a NaN,
  for every elevation, humidity and initial contents of the velocities.
\<close>

theorem density_division_is_unguarded:
  "\<not> is_finite (r (loadInputs_v2 Rh h (- 273.15) a b))
   \<and> \<not> is_finite (main_v2 Rh h (- 273.15) a b)"
proof -
  have "\<not> is_finite (density h (- 273.15) Rh)"
    by (rule density_zero_divisor) simp
  then have stored: "\<not> is_finite (r (loadInputs_v2 Rh h (- 273.15) a b))"
    by (simp add: loadInputs_v2_eq)
  then have "\<not> is_finite (lift_of (loadInputs_v2 Rh h (- 273.15) a b))"
    by (rule lift_of_not_finite)
  with stored show ?thesis
    by (simp add: main_v2_def)
qed

text \<open>
  Claim C6: with density, area and stream velocity fixed, a pair of coefficients whose
  difference is larger in magnitude never gives a lift force smaller in magnitude.

  It can. From the pair \<open>(0.9, 1)\<close> to the pair \<open>(0.9, 1.1)\<close> the difference grows from
  0.1 to 0.2, and the lift force, for density 1, area 0.23 and stream velocity 30, falls
  from 10.35 in magnitude to 0: the velocity depends on \<open>|1 - Cp|\<close>, which is the same
  for 0.9 and for 1.1.
\<close>

theorem lift_magnitude_can_decrease:
  "\<bar>(0.9::real) - 1\<bar> \<le> \<bar>0.9 - 1.1\<bar>
   \<and> \<bar>liftForce 1 0.23 (velocity 30 0.9) (velocity 30 1)\<bar> = 10.35
   \<and> \<bar>liftForce 1 0.23 (velocity 30 0.9) (velocity 30 1.1)\<bar> = 0"
  by (simp add: liftForce_velocity)

text \<open>
  Claim C6, amended: with density, area and stream velocity fixed, if the two
  coefficients of the second pair lie on the same side of 1 (both at most 1, or both at
  least 1) and their difference is at least as large in magnitude as that of the first
  pair, then the lift force of the second pair is at least as large in magnitude.
\<close>

theorem lift_magnitude_monotone:
  assumes side: "(Cp_over' \<le> 1 \<and> Cp_under' \<le> 1) \<or> (1 \<le> Cp_over' \<and> 1 \<le> Cp_under')"
    and spread: "\<bar>Cp_over - Cp_under\<bar> \<le> \<bar>Cp_over' - Cp_under'\<bar>"
  shows "\<bar>liftForce rho area (velocity V Cp_over) (velocity V Cp_under)\<bar>
       \<le> \<bar>liftForce rho area (velocity V Cp_over') (velocity V Cp_under')\<bar>"
proof -
  have "\<bar>\<bar>1 - Cp_over\<bar> - \<bar>1 - Cp_under\<bar>\<bar> \<le> \<bar>Cp_over - Cp_under\<bar>"
    by arith
  moreover have "\<bar>\<bar>1 - Cp_over'\<bar> - \<bar>1 - Cp_under'\<bar>\<bar> = \<bar>Cp_over' - Cp_under'\<bar>"
    using side by arith
  ultimately have "\<bar>\<bar>1 - Cp_over\<bar> - \<bar>1 - Cp_under\<bar>\<bar> \<le> \<bar>\<bar>1 - Cp_over'\<bar> - \<bar>1 - Cp_under'\<bar>\<bar>"
    using spread by linarith
  then have "\<bar>rho * area * V\<^sup>2 / 2\<bar> * \<bar>\<bar>1 - Cp_over\<bar> - \<bar>1 - Cp_under\<bar>\<bar>
           \<le> \<bar>rho * area * V\<^sup>2 / 2\<bar> * \<bar>\<bar>1 - Cp_over'\<bar> - \<bar>1 - Cp_under'\<bar>\<bar>"
    by (rule mult_left_mono) simp
  then show ?thesis
    by (simp only: liftForce_velocity abs_mult)
qed

text \<open>Claim C6, amended, from the pair \<open>(0, 1/4)\<close> to the pair \<open>(0, 1/2)\<close>.\<close>

theorem lift_magnitude_monotone_witness:
  "(((0::real) \<le> 1 \<and> (1/2::real) \<le> 1) \<or> ((1::real) \<le> 0 \<and> (1::real) \<le> 1/2))
   \<and> \<bar>(0::real) - 1/4\<bar> \<le> \<bar>0 - 1/2\<bar>
   \<and> \<bar>liftForce 1 0.23 (velocity 30 0) (velocity 30 (1/4))\<bar>
        \<le> \<bar>liftForce 1 0.23 (velocity 30 0) (velocity 30 (1/2))\<bar>"
  using lift_magnitude_monotone [of 0 "1/2" 0 "1/4" 1 "0.23" 30] by simp

text \<open>
  Claim C7: for every data row \<open>i \<ge> 1\<close> the columns 1 to 6 hold the curves over and
  under the airfoil for 10, 5 and 0 degrees, in that order.

  Under the airfoil the order is the other one. On the table whose rows are
  \<open>0, 1, 2, 3, 4, 5, 6\<close> the 10 degree curve under the airfoil holds the 6 of column 6,
  neither the 4 of column 4 nor the 2 of column 2, and the 0 degree curve under the
  airfoil holds the 4 of column 4.
\<close>

theorem under_columns_run_from_0_to_10_degrees:
  "empricalPressureUnder10AOA numbered_grid ! (1 - 1) = numbered_grid ! 1 ! 6
   \<and> empricalPressureUnder10AOA numbered_grid ! (1 - 1) \<noteq> numbered_grid ! 1 ! 4
   \<and> empricalPressureUnder10AOA numbered_grid ! (1 - 1) \<noteq> numbered_grid ! 1 ! 2
   \<and> empricalPressureUnder0AOA numbered_grid ! (1 - 1) = numbered_grid ! 1 ! 4
   \<and> empricalPressureUnder0AOA numbered_grid ! (1 - 1) \<noteq> numbered_grid ! 1 ! 6"
  by (simp add: empricalPressureUnder10AOA_def empricalPressureUnder0AOA_def column_def
      numbered_grid_nth)

text \<open>
  Claim C7, amended: \<open>loadInputs\<close> only reads the table, and for every data row \<open>i\<close>
  from 1 to 139 the columns 1, 2, 3 hold the coefficients over the airfoil for 10, 5 and
  0 degrees and the columns 4, 5, 6 the coefficients under the airfoil for 0, 5 and 10
  degrees; row 0 and column 0 are not read.
\<close>

theorem table_column_layout:
  assumes "1 \<le> i" and "i < 140"
  shows "empricalPressureOver10AOA data ! (i - 1) = data ! i ! 1
       \<and> empricalPressureOver5AOA data ! (i - 1) = data ! i ! 2
       \<and> empricalPressureOver0AOA data ! (i - 1) = data ! i ! 3
       \<and> empricalPressureUnder0AOA data ! (i - 1) = data ! i ! 4
       \<and> empricalPressureUnder5AOA data ! (i - 1) = data ! i ! 5
       \<and> empricalPressureUnder10AOA data ! (i - 1) = data ! i ! 6"
  by (simp only: column_nth [OF assms] empricalPressureOver10AOA_def
      empricalPressureOver5AOA_def empricalPressureOver0AOA_def empricalPressureUnder0AOA_def
      empricalPressureUnder5AOA_def empricalPressureUnder10AOA_def simp_thms)

text \<open>Claim C7, amended, at the last data row of the numbered table.\<close>

theorem table_column_layout_witness:
  "(1::nat) \<le> 139 \<and> (139::nat) < 140
   \<and> empricalPressureOver10AOA numbered_grid ! (139 - 1) = 1
   \<and> empricalPressureUnder0AOA numbered_grid ! (139 - 1) = 4
   \<and> empricalPressureUnder10AOA numbered_grid ! (139 - 1) = 6"
  using table_column_layout [of 139 numbered_grid] by (simp add: numbered_grid_nth)

text \<open>
  Claim C8: run without the path of the table, the program prints the usage message and
  exits with status 0; the branch of the \<open>argc\<close> check is taken in exactly the runs
  without a path.

  The check is \<open>argc < 1\<close>. A run without a path has \<open>argc = 1\<close>: the branch is not
  taken, nothing is printed, and \<open>strcpy\<close> reads the null pointer \<open>argv[1]\<close>.
\<close>

theorem missing_path_is_not_reported:
  "main_v3_arguments [''lift''] = NullPath \<and> main_v3_arguments [''lift''] \<noteq> UsageExit 0"
  by (simp add: main_v3_arguments_def)

text \<open>
  Claim C9: in v1 and in v2 the table of the coefficients over the airfoil lacks the comma
  between \<open>-1.4999\<close> and \<open>-1.4769\<close>, so the two numbers are one element, the difference
  \<open>-1.4999 - 1.4769 = -2.9768\<close> at index 20, followed at once by \<open>-1.4098\<close>. That table
  has 83 elements and the table of the coefficients under the airfoil has 84: the two
  arrays that the velocity loop reads side by side differ in length.
\<close>

theorem over_airfoil_table_merged_entry:
  "Cp2 ! 20 = - 1.4999 - 1.4769 \<and> Cp2 ! 20 = - 2.9768 \<and> Cp2 ! 21 = - 1.4098
   \<and> length Cp2 = 83 \<and> length Cp1 = 84 \<and> length Cp2 \<noteq> length Cp1
   \<and> empiricalPressureCoefficientOverAirfoil ! 20 = - 2.9768
   \<and> empiricalPressureCoefficientOverAirfoil ! 21 = - 1.4098
   \<and> length empiricalPressureCoefficientOverAirfoil = 83
   \<and> length empiricalPressureCoefficientUnderAirfoil = 84
   \<and> length empiricalPressureCoefficientOverAirfoil
       \<noteq> length empiricalPressureCoefficientUnderAirfoil"
  by (simp add: Cp2_def Cp1_def empiricalPressureCoefficientOverAirfoil_def
      empiricalPressureCoefficientUnderAirfoil_def)

text \<open>
  Claim C10: in every variant \<open>loadInputs\<close> adds into \<open>*v1\<close> and \<open>*v2\<close> without zeroing
  them, so a velocity on return is the specification's average plus the caller's initial
  contents divided by the number of elements, and what \<open>main\<close> prints is the specified
  value only if its locals happen to start at zero.

  The first half holds in every variant (\<open>velocities_from_initial_contents\<close>), but the
  value is not the average plus that quotient. In v3, with every coefficient zero and
  278 in \<open>*v1\<close> on entry, the average over the airfoil is 30 and \<open>loadInputs\<close> returns
  16, which is neither \<open>30 + 278/139\<close> nor \<open>30 + 278/278\<close>; and from zero it returns
  15, not the specified 30.
\<close>

theorem v3_velocity_from_nonzero_start:
  "v1 (loadInputs_v3 zero_coefficients 278 0) = 16
   \<and> spec_average_velocity 30 (take 139 zero_coefficients) + 278 / 139 = 32
   \<and> spec_average_velocity 30 (take 139 zero_coefficients) + 278 / 278 = 31
   \<and> v1 (loadInputs_v3 zero_coefficients 0 0)
       \<noteq> spec_average_velocity 30 (take 139 zero_coefficients)"
  by (simp add: loadInputs_v3_eq zero_coefficients_sums zero_coefficients_average)

end
